theory Spec2Isabelle
  imports Complex_Main "HOL-Library.List_Lexorder" "HOL-Library.Char_ord"
begin

section \<open>Python strings (ASCII)\<close>

text \<open>
  The extractors of \<^verbatim>\<open>app/tools/sec_search.py\<close> work on Python \<^verbatim>\<open>str\<close> values. A text is
  modelled as a \<^typ>\<open>string\<close> whose characters are ASCII code points: the character predicates
  below (white space, digits, letters, word characters) are the ones Python applies to code
  points below 128, and a character outside that range is neither.
\<close>

definition NL :: char where
  "NL = CHR 0x0A"

definition py_space :: string where
  "py_space = [CHR '' '', CHR 0x09, CHR 0x0A, CHR 0x0B, CHR 0x0C, CHR 0x0D,
               CHR 0x1C, CHR 0x1D, CHR 0x1E, CHR 0x1F]"

definition py_digits :: string where
  "py_digits = ''0123456789''"

definition uppers :: string where
  "uppers = ''ABCDEFGHIJKLMNOPQRSTUVWXYZ''"

definition lowers :: string where
  "lowers = ''abcdefghijklmnopqrstuvwxyz''"

definition word_chars :: string where
  "word_chars = lowers @ uppers @ py_digits @ ''_''"

definition is_space :: "char \<Rightarrow> bool" where
  "is_space c = List.member py_space c"

text \<open>
  An ASCII capital letter is a code point \<open>0x41..0x5A\<close>, a small letter \<open>0x61..0x7A\<close>; the
  two differ in bit 5 only. The tests read the bits of the character (least significant
  first), which is what keeps case-insensitive matching cheap to evaluate.
\<close>

fun is_upper :: "char \<Rightarrow> bool" where
  "is_upper (Char b0 b1 b2 b3 b4 b5 b6 b7) =
     (\<not> b7 \<and> b6 \<and> \<not> b5 \<and> (b0 \<or> b1 \<or> b2 \<or> b3 \<or> b4) \<and> \<not> (b4 \<and> b3 \<and> (b2 \<or> (b1 \<and> b0))))"

fun is_lower :: "char \<Rightarrow> bool" where
  "is_lower (Char b0 b1 b2 b3 b4 b5 b6 b7) =
     (\<not> b7 \<and> b6 \<and> b5 \<and> (b0 \<or> b1 \<or> b2 \<or> b3 \<or> b4) \<and> \<not> (b4 \<and> b3 \<and> (b2 \<or> (b1 \<and> b0))))"

fun lower_char :: "char \<Rightarrow> char" where
  "lower_char (Char b0 b1 b2 b3 b4 b5 b6 b7) =
     (if is_upper (Char b0 b1 b2 b3 b4 b5 b6 b7) then Char b0 b1 b2 b3 b4 True b6 b7
      else Char b0 b1 b2 b3 b4 b5 b6 b7)"

fun upper_char :: "char \<Rightarrow> char" where
  "upper_char (Char b0 b1 b2 b3 b4 b5 b6 b7) =
     (if is_lower (Char b0 b1 b2 b3 b4 b5 b6 b7) then Char b0 b1 b2 b3 b4 False b6 b7
      else Char b0 b1 b2 b3 b4 b5 b6 b7)"

definition lower :: "string \<Rightarrow> string" where
  "lower s = map lower_char s"

definition upper :: "string \<Rightarrow> string" where
  "upper s = map upper_char s"

text \<open>\<^verbatim>\<open>s.strip()\<close>, \<^verbatim>\<open>s.lstrip()\<close>, \<^verbatim>\<open>s.rstrip()\<close>.\<close>

definition lstrip :: "string \<Rightarrow> string" where
  "lstrip s = dropWhile is_space s"

definition rstrip :: "string \<Rightarrow> string" where
  "rstrip s = rev (dropWhile is_space (rev s))"

definition strip :: "string \<Rightarrow> string" where
  "strip s = rstrip (lstrip s)"

text \<open>
  Lengths and positions are integers, as in Python; \<^verbatim>\<open>s[lo:hi]\<close> is \<open>slice lo hi s\<close> for
  bounds that are not negative.
\<close>

fun len :: "'a list \<Rightarrow> int" where
  "len [] = 0"
| "len (x # xs) = 1 + len xs"

fun take_int :: "int \<Rightarrow> 'a list \<Rightarrow> 'a list" where
  "take_int n [] = []"
| "take_int n (x # xs) = (if n \<le> 0 then [] else x # take_int (n - 1) xs)"

fun drop_int :: "int \<Rightarrow> 'a list \<Rightarrow> 'a list" where
  "drop_int n [] = []"
| "drop_int n (x # xs) = (if n \<le> 0 then x # xs else drop_int (n - 1) xs)"

definition slice :: "int \<Rightarrow> int \<Rightarrow> 'a list \<Rightarrow> 'a list" where
  "slice lo hi s = take_int (hi - lo) (drop_int lo s)"

text \<open>\<^verbatim>\<open>a in b\<close> on strings: \<open>a\<close> occurs in \<open>b\<close> as a contiguous piece.\<close>

fun starts_with :: "string \<Rightarrow> string \<Rightarrow> bool" where
  "starts_with [] s = True"
| "starts_with (p # ps) [] = False"
| "starts_with (p # ps) (c # cs) = (p = c \<and> starts_with ps cs)"

fun str_in :: "string \<Rightarrow> string \<Rightarrow> bool" where
  "str_in a [] = (a = [])"
| "str_in a (c # cs) = (starts_with a (c # cs) \<or> str_in a cs)"

text \<open>\<^verbatim>\<open>s.split()\<close>: the maximal runs of characters that are not white space.\<close>

fun split_ws_acc :: "string \<Rightarrow> string \<Rightarrow> string list" where
  "split_ws_acc w [] = (if w = [] then [] else [rev w])"
| "split_ws_acc w (c # cs) =
     (if is_space c then (if w = [] then split_ws_acc [] cs else rev w # split_ws_acc [] cs)
      else split_ws_acc (c # w) cs)"

definition split_ws :: "string \<Rightarrow> string list" where
  "split_ws s = split_ws_acc [] s"

text \<open>
  \<^verbatim>\<open>s.splitlines()\<close>: a line ends at a line feed, a carriage return (with the line feed
  after it, if any), a vertical tab, a form feed or a file, group or record separator.
\<close>

definition line_breaks :: string where
  "line_breaks = [CHR 0x0A, CHR 0x0D, CHR 0x0B, CHR 0x0C, CHR 0x1C, CHR 0x1D, CHR 0x1E]"

fun splitlines_acc :: "string \<Rightarrow> string \<Rightarrow> string list" where
  "splitlines_acc w [] = (if w = [] then [] else [rev w])"
| "splitlines_acc w [c] = (if List.member line_breaks c then [rev w] else [rev (c # w)])"
| "splitlines_acc w (c # d # cs) =
     (if c = CHR 0x0D \<and> d = CHR 0x0A then rev w # splitlines_acc [] cs
      else if List.member line_breaks c then rev w # splitlines_acc [] (d # cs)
      else splitlines_acc (c # w) (d # cs))"

definition splitlines :: "string \<Rightarrow> string list" where
  "splitlines s = splitlines_acc [] s"

text \<open>\<^verbatim>\<open>s.split(sep, 1)\<close> on a one-character separator.\<close>

definition split1 :: "char \<Rightarrow> string \<Rightarrow> string \<times> string option" where
  "split1 sep s =
     (if List.member s sep then (takeWhile (\<lambda>c. c \<noteq> sep) s, Some (tl (dropWhile (\<lambda>c. c \<noteq> sep) s)))
      else (s, None))"

text \<open>\<^verbatim>\<open>s.zfill(w)\<close>: zeros on the left up to width \<open>w\<close>, after a leading sign.\<close>

definition zfill :: "nat \<Rightarrow> string \<Rightarrow> string" where
  "zfill w s =
     (case s of
        c # cs \<Rightarrow> if c = CHR ''+'' \<or> c = CHR ''-'' then c # replicate (w - length s) CHR ''0'' @ cs
                  else replicate (w - length s) CHR ''0'' @ s
      | [] \<Rightarrow> replicate w CHR ''0'')"

text \<open>\<^verbatim>\<open>s.replace(old, new)\<close> for a non-empty \<open>old\<close>; the text itself is the recursion bound.\<close>

fun replace_fuel :: "string \<Rightarrow> string \<Rightarrow> string \<Rightarrow> string \<Rightarrow> string" where
  "replace_fuel [] old new s = s"
| "replace_fuel (f # fuel) old new s =
     (case s of [] \<Rightarrow> []
      | c # cs \<Rightarrow> if starts_with old s then new @ replace_fuel fuel old new (drop (length old) s)
                  else c # replace_fuel fuel old new cs)"

definition replace :: "string \<Rightarrow> string \<Rightarrow> string \<Rightarrow> string" where
  "replace old new s = (if old = [] then s else replace_fuel s old new s)"

section \<open>Regular expressions: a backtracking matcher\<close>

text \<open>
  The patterns of the program are regular expressions of Python's \<^verbatim>\<open>re\<close> module. Each is
  written here as a term of \<open>regex\<close>, constructor for constructor, and matched by a
  backtracking matcher with \<^verbatim>\<open>re\<close>'s priorities: alternatives left to right, a greedy
  repetition longest first, a lazy one shortest first, the first way that lets the rest of
  the pattern match wins.
\<close>

datatype regex =
    Lit char
  | Cls string
  | NCls string
  | Dot
  | Eps
  | Seq regex regex
  | Alt regex regex
  | Rep bool int "int option" regex
  | Grp nat regex
  | Look bool regex
  | WordB
  | Bol
  | Eol
  | EndZ

text \<open>
  \<open>Rep greedy lo hi r\<close> is \<^verbatim>\<open>r{lo,hi}\<close> (\<open>hi = None\<close>: unbounded), lazy when \<open>greedy\<close> is
  false; \<open>Grp n r\<close> is capturing group \<open>n\<close>; \<open>Look True r\<close> is \<^verbatim>\<open>(?=r)\<close> and \<open>Look False r\<close>
  is \<^verbatim>\<open>(?!r)\<close>; \<open>WordB\<close> is \<^verbatim>\<open>\b\<close>, \<open>Bol\<close> is \<^verbatim>\<open>^\<close>, \<open>Eol\<close> is \<^verbatim>\<open>$\<close>, \<open>EndZ\<close> is \<^verbatim>\<open>\Z\<close>.
\<close>

record flags =
  ignorecase :: bool
  dotall :: bool

definition no_flags :: flags where
  "no_flags = \<lparr>ignorecase = False, dotall = False\<rparr>"

definition re_I :: flags where
  "re_I = \<lparr>ignorecase = True, dotall = False\<rparr>"

definition re_IS :: flags where
  "re_IS = \<lparr>ignorecase = True, dotall = True\<rparr>"

text \<open>
  The state of a match attempt: the character before the current position, the text still
  to read, and for every group closed so far the text at its opening and at its closing.
\<close>

datatype mstate = MState "char option" string "(nat \<times> string \<times> string) list"

fun prev :: "mstate \<Rightarrow> char option" where
  "prev (MState p s cs) = p"

fun rest :: "mstate \<Rightarrow> string" where
  "rest (MState p s cs) = s"

fun caps :: "mstate \<Rightarrow> (nat \<times> string \<times> string) list" where
  "caps (MState p s cs) = cs"

type_synonym cont = "mstate \<Rightarrow> mstate option"

definition chr_eq :: "flags \<Rightarrow> char \<Rightarrow> char \<Rightarrow> bool" where
  "chr_eq f p c = (if ignorecase f then lower_char p = lower_char c else p = c)"

definition in_cls :: "flags \<Rightarrow> string \<Rightarrow> char \<Rightarrow> bool" where
  "in_cls f cs c =
     (if ignorecase f then List.member cs c \<or> List.member cs (lower_char c) \<or> List.member cs (upper_char c)
      else List.member cs c)"

definition is_word :: "char option \<Rightarrow> bool" where
  "is_word oc = (case oc of None \<Rightarrow> False | Some c \<Rightarrow> List.member word_chars c)"

fun step1 :: "(char \<Rightarrow> bool) \<Rightarrow> cont \<Rightarrow> cont" where
  "step1 P k (MState p [] cs) = None"
| "step1 P k (MState p (c # s) cs) = (if P c then k (MState (Some c) s cs) else None)"

fun next_char :: "mstate \<Rightarrow> char option" where
  "next_char (MState p [] cs) = None"
| "next_char (MState p (c # s) cs) = Some c"

fun close_grp :: "nat \<Rightarrow> string \<Rightarrow> cont \<Rightarrow> cont" where
  "close_grp n s0 k (MState p s cs) = k (MState p s ((n, s0, s) # cs))"

primrec nullable :: "regex \<Rightarrow> bool" where
  "nullable (Lit c) = False"
| "nullable (Cls cs) = False"
| "nullable (NCls cs) = False"
| "nullable Dot = False"
| "nullable Eps = True"
| "nullable (Seq a b) = (nullable a \<and> nullable b)"
| "nullable (Alt a b) = (nullable a \<or> nullable b)"
| "nullable (Rep g lo hi r) = (lo \<le> 0 \<or> nullable r)"
| "nullable (Grp n r) = nullable r"
| "nullable (Look pos r) = True"
| "nullable WordB = True"
| "nullable Bol = True"
| "nullable Eol = True"
| "nullable EndZ = True"

text \<open>
  An iteration of a repetition has to consume text. For a body that cannot match the empty
  string this holds by itself; for the others it is checked.
\<close>

definition progress :: "bool \<Rightarrow> mstate \<Rightarrow> cont \<Rightarrow> cont" where
  "progress chk st0 k st =
     (if chk then (if length (rest st) < length (rest st0) then k st else None) else k st)"

fun dec_hi :: "int option \<Rightarrow> int option" where
  "dec_hi None = None"
| "dec_hi (Some n) = Some (n - 1)"

fun exhausted :: "int option \<Rightarrow> bool" where
  "exhausted None = False"
| "exhausted (Some n) = (n \<le> 0)"

text \<open>
  \<open>rep fuel mr chk greedy lo hi\<close> iterates the matcher \<open>mr\<close> of the body. Every iteration
  consumes a character, so the text that is left at the start bounds the number of
  iterations: it is passed as \<open>fuel\<close>.
\<close>

fun rep :: "string \<Rightarrow> (cont \<Rightarrow> cont) \<Rightarrow> bool \<Rightarrow> bool \<Rightarrow> int \<Rightarrow> int option \<Rightarrow> cont \<Rightarrow> cont" where
  "rep [] mr chk g lo hi k st = (if lo \<le> 0 then k st else None)"
| "rep (x # fuel) mr chk g lo hi k st =
     (if exhausted hi then k st
      else if 0 < lo then mr (progress chk st (rep fuel mr chk g (lo - 1) (dec_hi hi) k)) st
      else if g then
        (case mr (progress chk st (rep fuel mr chk g 0 (dec_hi hi) k)) st of
           Some r \<Rightarrow> Some r
         | None \<Rightarrow> k st)
      else
        (case k st of
           Some r \<Rightarrow> Some r
         | None \<Rightarrow> mr (progress chk st (rep fuel mr chk g 0 (dec_hi hi) k)) st))"

primrec rmatch :: "flags \<Rightarrow> regex \<Rightarrow> cont \<Rightarrow> cont" where
  "rmatch f (Lit p) k st = step1 (chr_eq f p) k st"
| "rmatch f (Cls cs) k st = step1 (in_cls f cs) k st"
| "rmatch f (NCls cs) k st = step1 (\<lambda>c. \<not> in_cls f cs c) k st"
| "rmatch f Dot k st = step1 (\<lambda>c. dotall f \<or> c \<noteq> NL) k st"
| "rmatch f Eps k st = k st"
| "rmatch f (Seq a b) k st = rmatch f a (rmatch f b k) st"
| "rmatch f (Alt a b) k st =
     (case rmatch f a k st of Some r \<Rightarrow> Some r | None \<Rightarrow> rmatch f b k st)"
| "rmatch f (Rep g lo hi r) k st = rep (rest st) (rmatch f r) (nullable r) g lo hi k st"
| "rmatch f (Grp n r) k st = rmatch f r (close_grp n (rest st) k) st"
| "rmatch f (Look pos r) k st =
     (case rmatch f r Some st of
        Some r \<Rightarrow> (if pos then k st else None)
      | None \<Rightarrow> (if pos then None else k st))"
| "rmatch f WordB k st = (if is_word (prev st) \<noteq> is_word (next_char st) then k st else None)"
| "rmatch f Bol k st = (if prev st = None then k st else None)"
| "rmatch f Eol k st = (if rest st = [] \<or> rest st = [NL] then k st else None)"
| "rmatch f EndZ k st = (if rest st = [] then k st else None)"

text \<open>Pattern notation.\<close>

fun lits :: "string \<Rightarrow> regex" where
  "lits [] = Eps"
| "lits [c] = Lit c"
| "lits (c # cs) = Seq (Lit c) (lits cs)"

fun seqs :: "regex list \<Rightarrow> regex" where
  "seqs [] = Eps"
| "seqs [r] = r"
| "seqs (r # rs) = Seq r (seqs rs)"

fun alts :: "regex list \<Rightarrow> regex" where
  "alts [] = NCls []"
| "alts [r] = r"
| "alts (r # rs) = Alt r (alts rs)"

definition digit :: regex where
  "digit = Cls py_digits"

definition wsp :: regex where
  "wsp = Cls py_space"

definition star :: "regex \<Rightarrow> regex" where
  "star r = Rep True 0 None r"

definition plus :: "regex \<Rightarrow> regex" where
  "plus r = Rep True 1 None r"

definition opt :: "regex \<Rightarrow> regex" where
  "opt r = Rep True 0 (Some 1) r"

definition lazy_star :: "regex \<Rightarrow> regex" where
  "lazy_star r = Rep False 0 None r"

definition times :: "int \<Rightarrow> int \<Rightarrow> regex \<Rightarrow> regex" where
  "times lo hi r = Rep True lo (Some hi) r"

definition at_least :: "int \<Rightarrow> regex \<Rightarrow> regex" where
  "at_least lo r = Rep True lo None r"

subsection \<open>\<^verbatim>\<open>search\<close>, \<^verbatim>\<open>findall\<close>, \<^verbatim>\<open>sub\<close>\<close>

text \<open>
  A match object: the text before the match, the text from its start, the text after its
  end, the character before that end, and the groups.
\<close>

datatype match = Match string string string "char option" "(nat \<times> string \<times> string) list"

definition between :: "string \<Rightarrow> string \<Rightarrow> string" where
  "between s0 s1 = take (length s0 - length s1) s0"

fun m_start :: "match \<Rightarrow> int" where
  "m_start (Match pre s0 s1 p cs) = len pre"

fun m_end :: "match \<Rightarrow> int" where
  "m_end (Match pre s0 s1 p cs) = len pre + (len s0 - len s1)"

fun group0 :: "match \<Rightarrow> string" where
  "group0 (Match pre s0 s1 p cs) = between s0 s1"

text \<open>\<^verbatim>\<open>m.group(n)\<close>: \<open>None\<close> when the group took no part in the match.\<close>

fun m_group :: "match \<Rightarrow> nat \<Rightarrow> string option" where
  "m_group (Match pre s0 s1 p cs) n =
     (case map_of cs n of None \<Rightarrow> None | Some (a, b) \<Rightarrow> Some (between a b))"

text \<open>The leftmost position from which the pattern matches.\<close>

fun find_first :: "flags \<Rightarrow> regex \<Rightarrow> string \<Rightarrow> char option \<Rightarrow> string \<Rightarrow> match option" where
  "find_first f r pre p [] =
     (case rmatch f r Some (MState p [] []) of
        Some st \<Rightarrow> Some (Match (rev pre) [] (rest st) (prev st) (caps st))
      | None \<Rightarrow> None)"
| "find_first f r pre p (c # s) =
     (case rmatch f r Some (MState p (c # s) []) of
        Some st \<Rightarrow> Some (Match (rev pre) (c # s) (rest st) (prev st) (caps st))
      | None \<Rightarrow> find_first f r (c # pre) (Some c) s)"

definition re_search :: "flags \<Rightarrow> regex \<Rightarrow> string \<Rightarrow> match option" where
  "re_search f r s = find_first f r [] None s"

text \<open>
  The successive matches of \<^verbatim>\<open>finditer\<close>, left to right and not overlapping. After a match
  the scan goes on from its end (one character further after an empty match). The text is
  the recursion bound.
\<close>

fun find_iter :: "string \<Rightarrow> flags \<Rightarrow> regex \<Rightarrow> string \<Rightarrow> char option \<Rightarrow> string \<Rightarrow> match list" where
  "find_iter [] f r pre p s =
     (case find_first f r pre p s of None \<Rightarrow> [] | Some mt \<Rightarrow> [mt])"
| "find_iter (x # fuel) f r pre p s =
     (case find_first f r pre p s of
        None \<Rightarrow> []
      | Some (Match pre' s0 s1 p1 cs) \<Rightarrow>
          Match pre' s0 s1 p1 cs #
          (if length s1 < length s0 then find_iter fuel f r (rev (between s0 s1) @ rev pre') p1 s1
           else (case s1 of [] \<Rightarrow> []
                 | c # s2 \<Rightarrow> find_iter fuel f r (c # rev pre') (Some c) s2)))"

definition finditer :: "flags \<Rightarrow> regex \<Rightarrow> string \<Rightarrow> match list" where
  "finditer f r s = find_iter s f r [] None s"

text \<open>
  \<^verbatim>\<open>re.findall\<close> gives the whole matches for a pattern without groups, the texts of the
  group for a pattern with one group, and tuples for a pattern with several; a group that
  took no part in a match gives the empty string.
\<close>

definition group_or_empty :: "match \<Rightarrow> nat \<Rightarrow> string" where
  "group_or_empty mt n = (case m_group mt n of None \<Rightarrow> [] | Some g \<Rightarrow> g)"

definition findall0 :: "flags \<Rightarrow> regex \<Rightarrow> string \<Rightarrow> string list" where
  "findall0 f r s = map group0 (finditer f r s)"

definition findall1 :: "flags \<Rightarrow> regex \<Rightarrow> string \<Rightarrow> string list" where
  "findall1 f r s = map (\<lambda>mt. group_or_empty mt 1) (finditer f r s)"

definition findallN :: "nat \<Rightarrow> flags \<Rightarrow> regex \<Rightarrow> string \<Rightarrow> string list list" where
  "findallN n f r s = map (\<lambda>mt. map (group_or_empty mt) [1..<Suc n]) (finditer f r s)"

text \<open>\<^verbatim>\<open>re.sub(pattern, repl, s)\<close> with a replacement text free of group references.\<close>

fun sub_matches :: "string \<Rightarrow> match list \<Rightarrow> string \<Rightarrow> int \<Rightarrow> string" where
  "sub_matches repl [] s pos = drop_int pos s"
| "sub_matches repl (mt # ms) s pos =
     slice pos (m_start mt) s @ repl @ sub_matches repl ms s (m_end mt)"

definition re_sub :: "flags \<Rightarrow> regex \<Rightarrow> string \<Rightarrow> string \<Rightarrow> string" where
  "re_sub f r repl s = sub_matches repl (finditer f r s) s 0"

section \<open>Python numbers\<close>

subsection \<open>Integers and their decimal notation\<close>

definition digit_val :: "char \<Rightarrow> int" where
  "digit_val c = (case map_of (zip py_digits [0, 1, 2, 3, 4, 5, 6, 7, 8, 9]) c of Some d \<Rightarrow> d | None \<Rightarrow> 0)"

definition is_digit :: "char \<Rightarrow> bool" where
  "is_digit c = List.member py_digits c"

definition digits_val :: "string \<Rightarrow> int" where
  "digits_val s = foldl (\<lambda>a c. 10 * a + digit_val c) 0 s"

function nat_str :: "int \<Rightarrow> string" where
  "nat_str n = (if n < 10 then [py_digits ! nat n] else nat_str (n div 10) @ [py_digits ! nat (n mod 10)])"
  by pat_completeness auto
termination
  by (relation "measure nat") auto

text \<open>\<^verbatim>\<open>str(n)\<close> for an integer \<open>n\<close>.\<close>

definition int_str :: "int \<Rightarrow> string" where
  "int_str n = (if n < 0 then CHR ''-'' # nat_str (- n) else nat_str n)"

datatype py_error = ValueError | TypeError | ZeroDivisionError | AttributeError

text \<open>
  \<^verbatim>\<open>int(s)\<close> for a string: white space around, an optional sign, then digits, where single
  underscores may separate digits.
\<close>

fun digit_groups_ok :: "bool \<Rightarrow> string \<Rightarrow> bool" where
  "digit_groups_ok after_digit [] = after_digit"
| "digit_groups_ok after_digit (c # cs) =
     (if is_digit c then digit_groups_ok True cs
      else if c = CHR ''_'' then after_digit \<and> cs \<noteq> [] \<and> is_digit (hd cs) \<and> digit_groups_ok False cs
      else False)"

definition int_of_str :: "string \<Rightarrow> py_error + int" where
  "int_of_str s0 =
     (let s = strip s0;
          neg = (s \<noteq> [] \<and> hd s = CHR ''-'');
          body = (if s \<noteq> [] \<and> (hd s = CHR ''-'' \<or> hd s = CHR ''+'') then tl s else s)
      in if digit_groups_ok False body
         then Inr ((if neg then - 1 else 1) * digits_val (filter is_digit body))
         else Inl ValueError)"

subsection \<open>Floating point\<close>

text \<open>
  A Python \<^verbatim>\<open>float\<close> is an IEEE double. A finite double is modelled by the rational number
  it is, and every operation rounds its exact result to the nearest double, ties to the
  even significand (\<open>fl\<close>). The exponent range is not bounded: the model follows the program
  on numbers inside the range of the normal doubles, which is where filing figures lie.
\<close>

definition pow2 :: "int \<Rightarrow> rat" where
  "pow2 e = (if 0 \<le> e then 2 ^ nat e else 1 / 2 ^ nat (- e))"

function bit_length :: "int \<Rightarrow> int" where
  "bit_length n = (if n \<le> 0 then 0 else 1 + bit_length (n div 2))"
  by pat_completeness auto
termination
  by (relation "measure nat") auto

text \<open>The exponent \<open>e\<close> with \<open>2 ^ e \<le> x < 2 ^ (e + 1)\<close>, for a positive \<open>x\<close>.\<close>

definition ilog2 :: "rat \<Rightarrow> int" where
  "ilog2 x = (let (p, q) = quotient_of x; b = bit_length p - bit_length q
              in if pow2 b \<le> x then b else b - 1)"

definition round_half_even :: "rat \<Rightarrow> int" where
  "round_half_even x =
     (let n = \<lfloor>x\<rfloor>; d = x - of_int n
      in if d < 1 / 2 then n else if 1 / 2 < d then n + 1 else if even n then n else n + 1)"

definition fl :: "rat \<Rightarrow> rat" where
  "fl x = (if x = 0 then 0
           else let e = ilog2 \<bar>x\<bar> - 52 in of_int (round_half_even (x / pow2 e)) * pow2 e)"

definition fadd :: "rat \<Rightarrow> rat \<Rightarrow> rat" where
  "fadd a b = fl (a + b)"

definition fsub :: "rat \<Rightarrow> rat \<Rightarrow> rat" where
  "fsub a b = fl (a - b)"

definition fmul :: "rat \<Rightarrow> rat \<Rightarrow> rat" where
  "fmul a b = fl (a * b)"

text \<open>\<^verbatim>\<open>a / b\<close> raises \<^verbatim>\<open>ZeroDivisionError\<close> when \<open>b\<close> is zero.\<close>

definition fdiv :: "rat \<Rightarrow> rat \<Rightarrow> py_error + rat" where
  "fdiv a b = (if b = 0 then Inl ZeroDivisionError else Inr (fl (a / b)))"

text \<open>
  \<^verbatim>\<open>round(x, nd)\<close>: the exact value of \<open>x\<close> rounded to \<open>nd\<close> decimals, ties to even, and the
  double nearest to that. \<^verbatim>\<open>int(x)\<close> truncates towards zero.
\<close>

definition py_round :: "nat \<Rightarrow> rat \<Rightarrow> rat" where
  "py_round nd x = fl (of_int (round_half_even (x * 10 ^ nd)) / 10 ^ nd)"

definition py_trunc :: "rat \<Rightarrow> int" where
  "py_trunc x = (if 0 \<le> x then \<lfloor>x\<rfloor> else - \<lfloor>- x\<rfloor>)"

text \<open>
  \<^verbatim>\<open>float(s)\<close> on the text captured by a digits-and-dots pattern: digits with at most one
  decimal point and at least one digit; anything else raises \<^verbatim>\<open>ValueError\<close>.
\<close>

definition float_of_str :: "string \<Rightarrow> py_error + rat" where
  "float_of_str s =
     (let ip = takeWhile is_digit s; r = dropWhile is_digit s;
          fp = (case r of [] \<Rightarrow> [] | c # cs \<Rightarrow> cs)
      in if (r = [] \<or> hd r = CHR ''.'') \<and> list_all is_digit fp \<and> ip @ fp \<noteq> []
         then Inr (fl (of_int (digits_val (ip @ fp)) / 10 ^ length fp))
         else Inl ValueError)"

section \<open>Python values\<close>

text \<open>
  The extractors return dictionaries and lists of strings and numbers. A dictionary is an
  association list in insertion order: assigning to a key that is there keeps its place.
\<close>

datatype pyval =
    VNone
  | VInt int
  | VFloat rat
  | VStr string
  | VList "pyval list"
  | VDict "(string \<times> pyval) list"

type_synonym 'v dict = "(string \<times> 'v) list"

type_synonym pydict = "pyval dict"

fun dict_set :: "'v dict \<Rightarrow> string \<Rightarrow> 'v \<Rightarrow> 'v dict" where
  "dict_set [] k v = [(k, v)]"
| "dict_set ((k', v') # d) k v = (if k' = k then (k, v) # d else (k', v') # dict_set d k v)"

definition dict_get :: "'v dict \<Rightarrow> string \<Rightarrow> 'v option" where
  "dict_get d k = map_of d k"

definition has_key :: "'v dict \<Rightarrow> string \<Rightarrow> bool" where
  "has_key d k = (map_of d k \<noteq> None)"

definition keys :: "'v dict \<Rightarrow> string list" where
  "keys d = map fst d"

text \<open>Truth value of a Python value, as \<^verbatim>\<open>if x:\<close> and \<^verbatim>\<open>x or y\<close> test it.\<close>

fun truthy :: "pyval \<Rightarrow> bool" where
  "truthy VNone = False"
| "truthy (VInt n) = (n \<noteq> 0)"
| "truthy (VFloat x) = (x \<noteq> 0)"
| "truthy (VStr s) = (s \<noteq> [])"
| "truthy (VList xs) = (xs \<noteq> [])"
| "truthy (VDict d) = (d \<noteq> [])"

text \<open>Keeping the first occurrence of every element, as the \<^verbatim>\<open>seen\<close> sets of the program do.\<close>

fun dedup_acc :: "'a list \<Rightarrow> 'a list \<Rightarrow> 'a list" where
  "dedup_acc seen [] = []"
| "dedup_acc seen (x # xs) =
     (if List.member seen x then dedup_acc seen xs else x # dedup_acc (x # seen) xs)"

definition dedup :: "'a list \<Rightarrow> 'a list" where
  "dedup xs = dedup_acc [] xs"

section \<open>Identifier resolution\<close>

subsection \<open>\<^verbatim>\<open>clean_company_name\<close>\<close>

text \<open>
  The five substitutions of \<^verbatim>\<open>clean_company_name\<close>, on the upper-cased name:
  \<^verbatim>\<open>\b(CORPORATION|CORP|INC|LLC|LLP|LTD|LIMITED|CO|COMPANY|PLC|AG|SA)\b\.?\<close> to nothing,
  a run of the punctuation \<^verbatim>\<open>. , & ' - / \ ( )\<close> to a space (the class of the source also
  lists the em and en dashes, which are not ASCII), \<^verbatim>\<open>\s+\<close> to a space, then \<^verbatim>\<open>^THE\s+\<close>
  and \<^verbatim>\<open>\s+THE$\<close> to nothing.
\<close>

definition legal_suffix :: regex where
  "legal_suffix =
     seqs [WordB,
           Grp 1 (alts [lits ''CORPORATION'', lits ''CORP'', lits ''INC'', lits ''LLC'', lits ''LLP'',
                        lits ''LTD'', lits ''LIMITED'', lits ''CO'', lits ''COMPANY'', lits ''PLC'',
                        lits ''AG'', lits ''SA'']),
           WordB, opt (Lit CHR ''.'')]"

definition name_punct :: regex where
  "name_punct = plus (Cls [CHR ''.'', CHR '','', CHR ''&'', CHR 0x27, CHR ''-'', CHR ''/'', CHR 0x5C,
                           CHR ''('', CHR '')''])"

definition leading_the :: regex where
  "leading_the = seqs [Bol, lits ''THE'', plus wsp]"

definition trailing_the :: regex where
  "trailing_the = seqs [plus wsp, lits ''THE'', Eol]"

definition clean_company_name :: "string \<Rightarrow> string" where
  "clean_company_name name =
     (let s = upper name;
          s = re_sub no_flags legal_suffix '''' s;
          s = re_sub no_flags name_punct '' '' s;
          s = strip (re_sub no_flags (plus wsp) '' '' s);
          s = re_sub no_flags leading_the '''' s;
          s = re_sub no_flags trailing_the '''' s
      in strip (lower s))"

subsection \<open>The structured registry: \<^verbatim>\<open>get_cik_from_ticker_or_name\<close>\<close>

text \<open>
  A row of the registry is a JSON array; its cells are integers, strings or null. \<open>py_str\<close>
  is \<^verbatim>\<open>str(x)\<close> and \<open>py_int\<close> is \<^verbatim>\<open>int(x)\<close> on a cell.
\<close>

datatype cell = CInt int | CStr string | CNull

fun py_str :: "cell \<Rightarrow> string" where
  "py_str (CInt n) = int_str n"
| "py_str (CStr s) = s"
| "py_str CNull = ''None''"

fun py_int :: "cell \<Rightarrow> py_error + int" where
  "py_int (CInt n) = Inr n"
| "py_int (CStr s) = int_of_str s"
| "py_int CNull = Inl TypeError"

text \<open>
  The loop over the rows. A row shorter than four cells, or whose first cell \<^verbatim>\<open>int\<close>
  rejects, is skipped; otherwise the ticker is compared, then the name, and the first
  comparison that holds returns.
\<close>

fun scan_rows :: "string \<Rightarrow> string \<Rightarrow> cell list list \<Rightarrow> string option \<times> string option" where
  "scan_rows company_clean ticker_upper [] = (None, None)"
| "scan_rows company_clean ticker_upper (row # rows) =
     (if length row < 4 then scan_rows company_clean ticker_upper rows
      else
        let cik_raw = row ! 0;
            name = clean_company_name (lower (py_str (row ! 1)));
            ticker = upper (strip (py_str (row ! 2)))
        in case py_int cik_raw of
             Inl e \<Rightarrow> scan_rows company_clean ticker_upper rows
           | Inr n \<Rightarrow>
               let cik_str = zfill 10 (int_str n)
               in if ticker = ticker_upper then (Some cik_str, Some ticker)
                  else if company_clean = clean_company_name name then (Some cik_str, Some ticker)
                  else scan_rows company_clean ticker_upper rows)"

text \<open>
  The request for the registry either gives the rows of the \<^verbatim>\<open>data\<close> field or fails (no
  connection, a status other than 200, a body that is not the expected JSON): \<open>None\<close>.
\<close>

definition get_cik_from_ticker_or_name ::
  "string option \<Rightarrow> string option \<Rightarrow> cell list list option \<Rightarrow> string option \<times> string option" where
  "get_cik_from_ticker_or_name company_name ticker_symbol registry =
     (let wcompany_name = (case company_name of None \<Rightarrow> [] | Some s \<Rightarrow> strip s);
          wticker_symbol = (case ticker_symbol of None \<Rightarrow> [] | Some s \<Rightarrow> strip s)
      in if wcompany_name = [] \<and> wticker_symbol = [] then (None, None)
         else case registry of
                None \<Rightarrow> (None, None)
              | Some rows \<Rightarrow> scan_rows (clean_company_name wcompany_name) (upper wticker_symbol) rows)"

subsection \<open>The flat archive: \<^verbatim>\<open>get_cik_from_archive\<close>\<close>

fun scan_archive :: "string \<Rightarrow> string list \<Rightarrow> string option" where
  "scan_archive search_lower [] = None"
| "scan_archive search_lower (line # lines) =
     (case split1 CHR '':'' line of
        (name_part, None) \<Rightarrow> scan_archive search_lower lines
      | (name_part, Some cik_part) \<Rightarrow>
          let cik = fst (split1 CHR '':'' (zfill 10 (strip cik_part)));
              clean_name = clean_company_name name_part
          in if cik \<noteq> ''0000000000'' \<and> clean_name = search_lower then Some cik
             else scan_archive search_lower lines)"

text \<open>
  Where the text of the archive comes from: the cache file when disk caching is on and the
  file is there, else the download. A cache file that cannot be read makes the function
  return the empty string; a failed download makes it return \<^verbatim>\<open>None\<close>.
\<close>

datatype archive_load = CacheUnreadable | DownloadFailed | ArchiveText string

definition get_cik_from_archive :: "string \<Rightarrow> archive_load \<Rightarrow> string option" where
  "get_cik_from_archive company_name load =
     (let search_lower = clean_company_name (strip company_name)
      in case load of
           CacheUnreadable \<Rightarrow> Some []
         | DownloadFailed \<Rightarrow> None
         | ArchiveText data \<Rightarrow> scan_archive search_lower (splitlines data))"

section \<open>Locating filings: form types and dates\<close>

text \<open>
  \<^verbatim>\<open>datetime.strptime(s, "%Y-%m-%d")\<close> matches the whole of \<open>s\<close> against
  \<^verbatim>\<open>(\d\d\d\d)-(1[0-2]|0[1-9]|[1-9])-(3[0-1]|[1-2]\d|0[1-9]|[1-9]| [1-9])\<close> and then
  builds the date, which has to exist in the calendar; it raises \<^verbatim>\<open>ValueError\<close>
  otherwise. The time of day of the result is midnight, so two results compare as their
  (year, month, day).
\<close>

type_synonym date = "int \<times> int \<times> int"

definition date_regex :: regex where
  "date_regex =
     seqs [Grp 1 (seqs [digit, digit, digit, digit]), Lit CHR ''-'',
           Grp 2 (alts [Seq (Lit CHR ''1'') (Cls ''012''), Seq (Lit CHR ''0'') (Cls ''123456789''),
                        Cls ''123456789'']),
           Lit CHR ''-'',
           Grp 3 (alts [Seq (Lit CHR ''3'') (Cls ''01''), Seq (Cls ''12'') digit,
                        Seq (Lit CHR ''0'') (Cls ''123456789''), Cls ''123456789'',
                        Seq (Lit CHR '' '') (Cls ''123456789'')])]"

definition is_leap :: "int \<Rightarrow> bool" where
  "is_leap y = (y mod 4 = 0 \<and> (y mod 400 = 0 \<or> y mod 100 \<noteq> 0))"

definition days_in_month :: "int \<Rightarrow> int \<Rightarrow> int" where
  "days_in_month y m =
     (if m = 2 then (if is_leap y then 29 else 28)
      else if m = 4 \<or> m = 6 \<or> m = 9 \<or> m = 11 then 30 else 31)"

definition strptime :: "string \<Rightarrow> date option" where
  "strptime s =
     (case rmatch re_I date_regex Some (MState None s []) of
        None \<Rightarrow> None
      | Some st \<Rightarrow>
          if rest st \<noteq> [] then None
          else
            let mt = Match [] s [] (prev st) (caps st);
                y = digits_val (group_or_empty mt 1);
                m = digits_val (group_or_empty mt 2);
                d = digits_val (filter is_digit (group_or_empty mt 3))
            in if 1 \<le> y \<and> 1 \<le> d \<and> d \<le> days_in_month y m then Some (y, m, d) else None)"

fun date_less :: "date \<Rightarrow> date \<Rightarrow> bool" where
  "date_less (y1, m1, d1) (y2, m2, d2) =
     (y1 < y2 \<or> (y1 = y2 \<and> (m1 < m2 \<or> (m1 = m2 \<and> d1 < d2))))"

record filing =
  form :: string
  filing_date :: string
  accession_number :: string
  primary_document :: string

text \<open>\<^verbatim>\<open>any(ft.upper() in form.upper() for ft in form_types)\<close>\<close>

definition form_wanted :: "string list \<Rightarrow> string \<Rightarrow> bool" where
  "form_wanted form_types fm = list_ex (\<lambda>ft. str_in (upper ft) (upper fm)) form_types"

text \<open>
  The date check of one filing: with a filter, a filing whose date does not parse is
  skipped, and so is one before the start or after the end.
\<close>

definition date_kept :: "bool \<Rightarrow> date option \<Rightarrow> date option \<Rightarrow> string \<Rightarrow> bool" where
  "date_kept has_date_filter start_dt end_dt fdate =
     (if has_date_filter then
        (case strptime fdate of
           None \<Rightarrow> False
         | Some filing_dt \<Rightarrow>
             (case start_dt of
                Some s \<Rightarrow>
                  if date_less filing_dt s then False
                  else (case end_dt of Some e \<Rightarrow> (if date_less e filing_dt then False else True)
                        | None \<Rightarrow> True)
              | None \<Rightarrow>
                  (case end_dt of Some e \<Rightarrow> (if date_less e filing_dt then False else True)
                   | None \<Rightarrow> True)))
      else True)"

fun raw_filings :: "string list \<Rightarrow> bool \<Rightarrow> date option \<Rightarrow> date option \<Rightarrow> filing list \<Rightarrow> filing list" where
  "raw_filings form_types has_date_filter start_dt end_dt [] = []"
| "raw_filings form_types has_date_filter start_dt end_dt (f # recent) =
     (if \<not> form_wanted form_types (form f)
      then raw_filings form_types has_date_filter start_dt end_dt recent
      else if \<not> date_kept has_date_filter start_dt end_dt (filing_date f)
      then raw_filings form_types has_date_filter start_dt end_dt recent
      else f # raw_filings form_types has_date_filter start_dt end_dt recent)"

text \<open>
  The bounds are parsed once, before the loop; a bound that is \<^verbatim>\<open>None\<close> or empty is not
  given, and a bound that does not parse ends the search with an error. The recent filings
  of the index are parallel arrays in the source; they are the list of their rows here.
\<close>

definition given :: "string option \<Rightarrow> bool" where
  "given s = (case s of None \<Rightarrow> False | Some t \<Rightarrow> t \<noteq> [])"

definition locate_filings ::
  "string list \<Rightarrow> string option \<Rightarrow> string option \<Rightarrow> filing list \<Rightarrow> string + filing list" where
  "locate_filings form_types start_date end_date recent =
     (let has_date_filter = (given start_date \<or> given end_date);
          start_bad = (given start_date \<and> strptime (the start_date) = None);
          end_bad = (given end_date \<and> strptime (the end_date) = None)
      in if has_date_filter \<and> (start_bad \<or> end_bad)
         then Inl ''Invalid date format. Use YYYY-MM-DD''
         else Inr (raw_filings form_types has_date_filter
                     (if given start_date then strptime (the start_date) else None)
                     (if given end_date then strptime (the end_date) else None) recent))"

subsection \<open>The resolver's result, stated on the rows\<close>

text \<open>
  What one row contributes: its ticker and name as the loop compares them, its identifier
  as the loop returns it, and whether the row ends the loop (\<open>row_hit\<close>).
\<close>

definition row_ticker :: "cell list \<Rightarrow> string" where
  "row_ticker row = upper (strip (py_str (row ! 2)))"

definition row_name :: "cell list \<Rightarrow> string" where
  "row_name row = clean_company_name (clean_company_name (lower (py_str (row ! 1))))"

definition row_cik :: "cell list \<Rightarrow> string" where
  "row_cik row = (case py_int (row ! 0) of Inl e \<Rightarrow> [] | Inr n \<Rightarrow> zfill 10 (int_str n))"

definition row_hit :: "string \<Rightarrow> string \<Rightarrow> cell list \<Rightarrow> bool" where
  "row_hit company_clean ticker_upper row =
     (4 \<le> length row \<and> \<not> isl (py_int (row ! 0)) \<and>
      (row_ticker row = ticker_upper \<or> row_name row = company_clean))"

definition example_registry :: "cell list list" where
  "example_registry =
     [[CInt 320193, CStr ''Apple Inc.'', CStr ''AAPL'', CStr ''Nasdaq''],
      [CInt 789019, CStr ''MICROSOFT CORP'', CStr ''MSFT'', CStr ''Nasdaq'']]"

subsection \<open>An index of four filings\<close>

definition filed_on :: "string \<Rightarrow> filing" where
  "filed_on d = \<lparr>form = ''10-K'', filing_date = d, accession_number = ''0000320193-24-000123'',
                 primary_document = ''aapl-20240928.htm''\<rparr>"

definition example_recent :: "filing list" where
  "example_recent = map filed_on [''2025-01-01'', ''2024-12-31'', ''2024-01-01'', ''2023-12-31'']"

section \<open>Fact extractors\<close>

subsection \<open>Shared pattern pieces and Python helpers\<close>

definition any_char :: regex where
  "any_char = NCls []"

definition num_dots :: regex where
  "num_dots = plus (Cls ''0123456789.'')"

text \<open>\<^verbatim>\<open>[float(m) for m in ms]\<close>: the first string that \<^verbatim>\<open>float\<close> rejects raises.\<close>

fun floats_of :: "string list \<Rightarrow> py_error + rat list" where
  "floats_of [] = Inr []"
| "floats_of (m # ms) =
     (case float_of_str m of
        Inl e \<Rightarrow> Inl e
      | Inr x \<Rightarrow> (case floats_of ms of Inl e \<Rightarrow> Inl e | Inr xs \<Rightarrow> Inr (x # xs)))"

subsection \<open>The margin comparator: \<^verbatim>\<open>extract_pretax_margin_data\<close>\<close>

text \<open>
  The four patterns of \<^verbatim>\<open>_PRETAX_PATTERNS_FINAL\<close>, compiled with \<^verbatim>\<open>re.I\<close>:
  \<^item> \<^verbatim>\<open>pretax\s+profit\s+margin\s+of\s+([\d.]+)%.*?(?:well\s+)?(above|below).*?(?:plan|guidance)\<close>
  \<^item> \<^verbatim>\<open>pretax\s+(?:profit\s+)?margin.*?([\d.]+)%.*?(above|below).*?(?:plan|guidance).*?by\s+([\d.]+)\s+percentage\s+point\<close>
  \<^item> \<^verbatim>\<open>pretax\s+profit\s+margin\s+of\s+([\d.]+)%\<close>
  \<^item> \<^verbatim>\<open>Q[1-4]\s+pretax\s+profit\s+margin\s+of\s+([\d.]+)%\<close>

  and the difference pattern \<^verbatim>\<open>(?:up|down|by)\s+([\d.]+)\s+percentage\s+points?\<close>.
\<close>

definition margin_of :: regex where
  "margin_of = seqs [lits ''pretax'', plus wsp, lits ''profit'', plus wsp, lits ''margin'', plus wsp,
                     lits ''of'', plus wsp, Grp 1 num_dots, Lit CHR ''%'']"

definition tjx_style :: regex where
  "tjx_style =
     seqs [margin_of, lazy_star Dot, opt (Seq (lits ''well'') (plus wsp)),
           Grp 2 (Alt (lits ''above'') (lits ''below'')), lazy_star Dot,
           Alt (lits ''plan'') (lits ''guidance'')]"

definition explicit_diff :: regex where
  "explicit_diff =
     seqs [lits ''pretax'', plus wsp, opt (Seq (lits ''profit'') (plus wsp)), lits ''margin'',
           lazy_star Dot, Grp 1 num_dots, Lit CHR ''%'', lazy_star Dot,
           Grp 2 (Alt (lits ''above'') (lits ''below'')), lazy_star Dot,
           Alt (lits ''plan'') (lits ''guidance''), lazy_star Dot, lits ''by'', plus wsp,
           Grp 3 num_dots, plus wsp, lits ''percentage'', plus wsp, lits ''point'']"

definition simple_margin :: regex where
  "simple_margin = margin_of"

definition quarterly_margin :: regex where
  "quarterly_margin = seqs [Lit CHR ''Q'', Cls ''1234'', plus wsp, margin_of]"

definition diff_pattern :: regex where
  "diff_pattern =
     seqs [alts [lits ''up'', lits ''down'', lits ''by''], plus wsp, Grp 1 num_dots, plus wsp,
           lits ''percentage'', plus wsp, lits ''point'', opt (Lit CHR ''s'')]"

text \<open>
  The branch of the first pattern, after the match: \<open>actual\<close> and \<open>direction\<close> are the two
  groups, \<open>context\<close> is the text around the match in which the difference is looked for.
\<close>

definition beat_or_miss :: "string \<Rightarrow> string" where
  "beat_or_miss direction = (if direction = ''above'' then ''beat'' else ''miss'')"

definition tjx_result :: "rat \<Rightarrow> string \<Rightarrow> string \<Rightarrow> py_error + pydict" where
  "tjx_result actual direction context =
     (let result = [(''actual_pct'', VFloat actual),
                    (''beat_or_miss'', VStr (beat_or_miss direction)),
                    (''confidence'', VStr ''medium''),
                    (''source'', VStr ''tjx_style_above_below_plan'')]
      in case re_search re_I diff_pattern context of
           None \<Rightarrow> Inr result
         | Some diff_match \<Rightarrow>
             (case float_of_str (group_or_empty diff_match 1) of
                Inl e \<Rightarrow> Inl e
              | Inr diff \<Rightarrow>
                  let result = dict_set result ''difference_bps'' (VInt (py_trunc (fmul diff 100)));
                      result = dict_set result ''confidence'' (VStr ''high'')
                  in if beat_or_miss direction = ''beat''
                     then Inr (dict_set result ''guidance_high_pct'' (VFloat (py_round 1 (fsub actual diff))))
                     else Inr (dict_set result ''guidance_high_pct'' (VFloat (py_round 1 (fadd actual diff))))))"

definition explicit_result :: "rat \<Rightarrow> string \<Rightarrow> rat \<Rightarrow> pydict" where
  "explicit_result actual direction diff =
     (let guidance_high = (if beat_or_miss direction = ''beat'' then fsub actual diff
                           else fadd actual diff)
      in [(''actual_pct'', VFloat actual),
          (''guidance_high_pct'', VFloat (py_round 1 guidance_high)),
          (''difference_bps'', VInt (py_trunc (fmul diff 100))),
          (''beat_or_miss'', VStr (beat_or_miss direction)),
          (''confidence'', VStr ''high''),
          (''source'', VStr ''explicit_difference'')])"

definition extract_pretax_margin_data :: "string \<Rightarrow> py_error + pydict" where
  "extract_pretax_margin_data text =
     (let search_text = (if 100000 < len text then take_int 100000 text else text)
      in case re_search re_I tjx_style search_text of
           Some mt \<Rightarrow>
             (case float_of_str (group_or_empty mt 1) of
                Inl e \<Rightarrow> Inl e
              | Inr actual \<Rightarrow>
                  tjx_result actual (lower (group_or_empty mt 2))
                    (slice (max 0 (m_start mt - 200)) (min (len search_text) (m_end mt + 500)) search_text))
         | None \<Rightarrow>
             (case re_search re_I explicit_diff search_text of
                Some mt \<Rightarrow>
                  (case float_of_str (group_or_empty mt 1) of
                     Inl e \<Rightarrow> Inl e
                   | Inr actual \<Rightarrow>
                       (case float_of_str (group_or_empty mt 3) of
                          Inl e \<Rightarrow> Inl e
                        | Inr diff \<Rightarrow> Inr (explicit_result actual (lower (group_or_empty mt 2)) diff)))
              | None \<Rightarrow>
                  (case findall1 re_I simple_margin search_text of
                     m # ms \<Rightarrow>
                       (case floats_of (take 3 (m # ms)) of
                          Inl e \<Rightarrow> Inl e
                        | Inr vs \<Rightarrow> Inr [(''margin_values'', VList (map VFloat vs)),
                                         (''confidence'', VStr ''low''),
                                         (''source'', VStr ''simple_extraction'')])
                   | [] \<Rightarrow>
                       (case findall1 re_I quarterly_margin search_text of
                          m # ms \<Rightarrow>
                            (case floats_of (take 4 (m # ms)) of
                               Inl e \<Rightarrow> Inl e
                             | Inr vs \<Rightarrow> Inr [(''quarterly_values'', VList (map VFloat vs)),
                                              (''confidence'', VStr ''low''),
                                              (''source'', VStr ''quarterly_mentions'')])
                        | [] \<Rightarrow> Inr []))))"

subsection \<open>Financial line items: \<^verbatim>\<open>extract_financial_data\<close>\<close>

text \<open>
  The table \<^verbatim>\<open>metrics\<close>, in its order; every pattern is used with \<^verbatim>\<open>re.I\<close>. The pieces that
  recur: \<^verbatim>\<open>[\s\n:]*\$?[\s\n]*([\(\)]?[\d,]+[\(\)]?)\<close> (\<open>money_tail\<close>),
  \<^verbatim>\<open>member(?:ship)?s?[\s\n:]*[\s\n]*([\d,]+(?:\.\d+)?)\s*(?:million)?\<close> (\<open>member_tail\<close>) and
  \<^verbatim>\<open>[\s\n:]*[\s\n]*([\d,]+(?:\.\d+)?)\s*%\<close> (\<open>pct_tail\<close>).
\<close>

definition ws_colon :: regex where
  "ws_colon = star (Cls (py_space @ '':''))"

definition paren :: regex where
  "paren = opt (Cls ''()'')"

definition num_commas :: regex where
  "num_commas = Seq (plus (Cls ''0123456789,'')) (opt (Seq (Lit CHR ''.'') (plus digit)))"

definition money_tail :: regex where
  "money_tail = seqs [ws_colon, opt (Lit CHR ''$''), star wsp,
                      Grp 1 (seqs [paren, plus (Cls ''0123456789,''), paren])]"

definition member_tail :: regex where
  "member_tail = seqs [lits ''member'', opt (lits ''ship''), opt (Lit CHR ''s''), ws_colon, star wsp,
                       Grp 1 num_commas, star wsp, opt (lits ''million'')]"

definition pct_tail :: regex where
  "pct_tail = seqs [ws_colon, star wsp, Grp 1 num_commas, star wsp, Lit CHR ''%'']"

text \<open>
  \<^item> \<^verbatim>\<open>Total\s+(?:net\s+)?revenues?\<close>, \<^verbatim>\<open>Total\s+assets\<close>, \<^verbatim>\<open>Total\s+liabilities\<close>,
    \<^verbatim>\<open>Total\s+stockholders[\']?\s+equity\<close> (the class of the source also has the typographic apostrophe, which is not ASCII),
    \<^verbatim>\<open>Net\s+(?:income|earnings)\<close>,
    \<^verbatim>\<open>(?:Net\s+)?[Cc]ash\s+(?:provided\s+by|from)\s+operating\s+activities\<close>, each before \<open>money_tail\<close>;
  \<^item> \<^verbatim>\<open>(?:paid|average).*?\<close>, \<^verbatim>\<open>streaming.*?\<close>, \<^verbatim>\<open>average.*?(?:paying\s+)?\<close>, each before \<open>member_tail\<close>;
  \<^item> \<^verbatim>\<open>(?:ARPPU|average\s+revenue\s+per.*?user|revenue\s+per.*?member)[\s\n:]*\$?[\s\n]*([\d,]+(?:\.\d+)?)\<close>;
  \<^item> \<^verbatim>\<open>gross\s+(?:profit\s+)?margin\<close>, \<^verbatim>\<open>operating\s+(?:profit\s+)?margin\<close>,
    \<^verbatim>\<open>pre[\-\s]?tax\s+(?:profit\s+)?margin\<close>, each before \<open>pct_tail\<close>.
\<close>

definition metrics_table :: "(string \<times> regex) list" where
  "metrics_table =
     [(''total_revenue'',
       seqs [lits ''Total'', plus wsp, opt (Seq (lits ''net'') (plus wsp)), lits ''revenue'',
             opt (Lit CHR ''s''), money_tail]),
      (''total_assets'', seqs [lits ''Total'', plus wsp, lits ''assets'', money_tail]),
      (''total_liabilities'', seqs [lits ''Total'', plus wsp, lits ''liabilities'', money_tail]),
      (''stockholders_equity'',
       seqs [lits ''Total'', plus wsp, lits ''stockholders'', opt (Cls [CHR 0x27]), plus wsp,
             lits ''equity'', money_tail]),
      (''net_income'',
       seqs [lits ''Net'', plus wsp, Alt (lits ''income'') (lits ''earnings''), money_tail]),
      (''operating_cash_flow'',
       seqs [opt (Seq (lits ''Net'') (plus wsp)), Cls ''Cc'', lits ''ash'', plus wsp,
             Alt (seqs [lits ''provided'', plus wsp, lits ''by'']) (lits ''from''), plus wsp,
             lits ''operating'', plus wsp, lits ''activities'', money_tail]),
      (''paid_memberships'',
       seqs [Alt (lits ''paid'') (lits ''average''), lazy_star Dot, member_tail]),
      (''streaming_members'', seqs [lits ''streaming'', lazy_star Dot, member_tail]),
      (''average_memberships'',
       seqs [lits ''average'', lazy_star Dot, opt (Seq (lits ''paying'') (plus wsp)), member_tail]),
      (''arppu'',
       seqs [alts [lits ''ARPPU'',
                   seqs [lits ''average'', plus wsp, lits ''revenue'', plus wsp, lits ''per'',
                         lazy_star Dot, lits ''user''],
                   seqs [lits ''revenue'', plus wsp, lits ''per'', lazy_star Dot, lits ''member'']],
             ws_colon, opt (Lit CHR ''$''), star wsp, Grp 1 num_commas]),
      (''gross_margin_pct'',
       seqs [lits ''gross'', plus wsp, opt (Seq (lits ''profit'') (plus wsp)), lits ''margin'', pct_tail]),
      (''operating_margin_pct'',
       seqs [lits ''operating'', plus wsp, opt (Seq (lits ''profit'') (plus wsp)), lits ''margin'',
             pct_tail]),
      (''pretax_margin_pct'',
       seqs [lits ''pre'', opt (Cls (CHR ''-'' # py_space)), lits ''tax'', plus wsp,
             opt (Seq (lits ''profit'') (plus wsp)), lits ''margin'', pct_tail])]"

text \<open>One match of a metric: stripped, and \<^verbatim>\<open>(123)\<close> turned into \<^verbatim>\<open>-123\<close>.\<close>

definition clean_value :: "string \<Rightarrow> string" where
  "clean_value m =
     (let v = strip m
      in if starts_with ''('' v \<and> v \<noteq> [] \<and> last v = CHR '')'' then CHR ''-'' # butlast (tl v) else v)"

fun metric_loop :: "(string \<times> regex) list \<Rightarrow> string \<Rightarrow> pydict \<Rightarrow> pydict" where
  "metric_loop [] text financial_data = financial_data"
| "metric_loop ((metric_name, pattern) # ms) text financial_data =
     (let cleaned = dedup (map clean_value (take 10 (findall1 re_I pattern text)))
      in metric_loop ms text
           (if cleaned \<noteq> [] then dict_set financial_data metric_name (VList (map VStr cleaned))
            else financial_data))"

text \<open>
  The ARPPU block. Its four patterns, with \<^verbatim>\<open>re.IGNORECASE\<close> (\<^verbatim>\<open>E\<close> stands for the
  euro sign of the source, which is not ASCII and has no part in the model):
  \<^item> \<^verbatim>\<open>average\s+monthly\s+revenue\s+per\s+paying\s+membership\s+[\$E]?\s*(\d+\.\d{2})\<close>
  \<^item> \<^verbatim>\<open>average\s+revenue\s+per\s+paid\s+member[\s:]+[\$E]?\s*(\d+\.\d{2})\<close>
  \<^item> \<^verbatim>\<open>ARPPU.*?[\$E]?\s*(\d+\.\d{2})\<close>
  \<^item> \<^verbatim>\<open>global\s+average.*?[\$E]?\s*(\d+\.\d{2})\<close>
\<close>

definition dollars :: regex where
  "dollars = seqs [opt (Lit CHR ''$''), star wsp,
                   Grp 1 (seqs [plus digit, Lit CHR ''.'', times 2 2 digit])]"

definition arppu_patterns :: "regex list" where
  "arppu_patterns =
     [seqs [lits ''average'', plus wsp, lits ''monthly'', plus wsp, lits ''revenue'', plus wsp,
            lits ''per'', plus wsp, lits ''paying'', plus wsp, lits ''membership'', plus wsp, dollars],
      seqs [lits ''average'', plus wsp, lits ''revenue'', plus wsp, lits ''per'', plus wsp,
            lits ''paid'', plus wsp, lits ''member'', plus (Cls (py_space @ '':'')), dollars],
      seqs [lits ''ARPPU'', lazy_star Dot, dollars],
      seqs [lits ''global'', plus wsp, lits ''average'', lazy_star Dot, dollars]]"

text \<open>The values inside the band, in the order the patterns and the text give them.\<close>

fun in_band :: "string list \<Rightarrow> rat list" where
  "in_band [] = []"
| "in_band (m # ms) =
     (case float_of_str m of
        Inl e \<Rightarrow> in_band ms
      | Inr val \<Rightarrow> if 5 \<le> val \<and> val \<le> 25 then val # in_band ms else in_band ms)"

definition safe_values :: "string \<Rightarrow> rat list" where
  "safe_values text = concat (map (\<lambda>pat. in_band (findall1 re_I pat text)) arppu_patterns)"

text \<open>
  \<^verbatim>\<open>Counter(xs).most_common(1)[0][0]\<close>: the counts are kept in the order the values first
  occur, and the first value with the greatest count is taken.
\<close>

definition counter :: "'a list \<Rightarrow> ('a \<times> nat) list" where
  "counter xs = map (\<lambda>x. (x, count_list xs x)) (dedup xs)"

fun first_max :: "'a \<Rightarrow> nat \<Rightarrow> ('a \<times> nat) list \<Rightarrow> 'a" where
  "first_max x c [] = x"
| "first_max x c ((y, d) # items) = (if c < d then first_max y d items else first_max x c items)"

definition most_common :: "'a \<Rightarrow> 'a list \<Rightarrow> 'a" where
  "most_common x xs = (case counter (x # xs) of (y, c) # items \<Rightarrow> first_max y c items | [] \<Rightarrow> x)"

definition arppu_block :: "string \<Rightarrow> pydict" where
  "arppu_block text =
     (case safe_values text of
        [] \<Rightarrow> []
      | v # vs \<Rightarrow>
          [(''arppu_direct'', VList (map VFloat (take 5 (sort (remdups (v # vs)))))),
           (''arppu_overall'', VList [VFloat (most_common v vs)]),
           (''source'', VStr ''global_mode_from_direct'')])"

text \<open>
  The membership block. Its three patterns, with \<^verbatim>\<open>re.I\<close>:
  \<^item> \<^verbatim>\<open>(?:paid|streaming|total)\s+member(?:ship)?s?\s+(?:of\s+)?([\d.]+)\s+million\<close>
  \<^item> \<^verbatim>\<open>([\d.]+)\s+million\s+(?:paid|streaming|total)\s+member(?:ship)?s?\<close>
  \<^item> \<^verbatim>\<open>(?:paid|streaming)\s+member(?:ship)?s?[\s\n]+(\d{2,3}\.\d{1,2})(?!\d)\<close>
\<close>

definition members_word :: regex where
  "members_word = seqs [lits ''member'', opt (lits ''ship''), opt (Lit CHR ''s'')]"

definition pattern1 :: regex where
  "pattern1 = seqs [alts [lits ''paid'', lits ''streaming'', lits ''total''], plus wsp, members_word,
                    plus wsp, opt (Seq (lits ''of'') (plus wsp)), Grp 1 num_dots, plus wsp,
                    lits ''million'']"

definition pattern2 :: regex where
  "pattern2 = seqs [Grp 1 num_dots, plus wsp, lits ''million'', plus wsp,
                    alts [lits ''paid'', lits ''streaming'', lits ''total''], plus wsp, members_word]"

definition pattern3 :: regex where
  "pattern3 = seqs [Alt (lits ''paid'') (lits ''streaming''), plus wsp, members_word, plus wsp,
                    Grp 1 (seqs [times 2 3 digit, Lit CHR ''.'', times 1 2 digit]), Look False digit]"

definition plausible :: "rat \<Rightarrow> bool" where
  "plausible m = (50 \<le> m \<and> m \<le> 500)"

definition membership_block :: "string \<Rightarrow> py_error + pydict" where
  "membership_block text =
     (case floats_of (take 10 (findall1 re_I pattern1 text)) of
        Inl e \<Rightarrow> Inl e
      | Inr m1 \<Rightarrow>
          (case floats_of (take 10 (findall1 re_I pattern2 text)) of
             Inl e \<Rightarrow> Inl e
           | Inr m2 \<Rightarrow>
               (case floats_of (findall1 re_I pattern3 text) of
                  Inl e \<Rightarrow> Inl e
                | Inr m3 \<Rightarrow>
                    let valid = filter plausible m3;
                        found = (m1 \<noteq> [] \<or> m2 \<noteq> [] \<or> valid \<noteq> []);
                        memberships_millions = m1 @ m2 @ take 10 valid
                    in if found
                       then Inr [(''memberships_millions'',
                                  VList (map VFloat (rev (sort (remdups (filter plausible memberships_millions))))))]
                       else Inr [])))"

text \<open>
  The whole extractor: the metric table, the margin comparator (kept when it is not empty),
  then the ARPPU block and the membership block, both assigned whatever they hold.
\<close>

definition extract_financial_data :: "string \<Rightarrow> py_error + pydict" where
  "extract_financial_data text =
     (let financial_data = metric_loop metrics_table text []
      in case extract_pretax_margin_data text of
           Inl e \<Rightarrow> Inl e
         | Inr pretax_data \<Rightarrow>
             let financial_data = (if pretax_data \<noteq> []
                                   then dict_set financial_data ''pretax_margin_data'' (VDict pretax_data)
                                   else financial_data);
                 financial_data = dict_set financial_data ''arppu_data'' (VDict (arppu_block text))
             in case membership_block text of
                  Inl e \<Rightarrow> Inl e
                | Inr result \<Rightarrow> Inr (dict_set financial_data ''membership_data'' (VDict result)))"

subsection \<open>Guidance ranges: \<^verbatim>\<open>extract_guidance_data\<close>\<close>

text \<open>
  The range patterns, each used with \<^verbatim>\<open>re.I | re.S\<close>:
  \<^item> \<^verbatim>\<open>(?:revenue|sales).*?(?:guidance|outlook|expects?|projects?|forecasts?).*?\$\s*([\d.]+)\s*(?:billion|million).*?(?:to|and|-).*?\$\s*([\d.]+)\s*(billion|million)\<close>
  \<^item> \<^verbatim>\<open>(?:revenue|sales).*?between.*?\$\s*([\d.]+).*?and.*?\$\s*([\d.]+)\s*(billion|million)\<close>
  \<^item> \<^verbatim>\<open>(?:margin|pre-?tax|gross|operating).*?(?:guidance|outlook|expects?|projects?).*?([\d.]+)\s*%.*?(?:to|and|-).*?([\d.]+)\s*%\<close>
  \<^item> \<^verbatim>\<open>(?:margin|pre-?tax).*?between.*?([\d.]+)\s*%.*?and.*?([\d.]+)\s*%\<close>
  \<^item> \<^verbatim>\<open>(?:EPS|earnings\s+per\s+share).*?(?:guidance|outlook|expects?).*?\$\s*([\d.]+).*?(?:to|and|-).*?\$\s*([\d.]+)\<close>
  \<^item> the fallback \<^verbatim>\<open>guidance.*?([\d.]+)\s*(?:%|billion|million)\<close>
\<close>

definition skip :: regex where
  "skip = lazy_star Dot"

definition dollar_num :: "nat \<Rightarrow> regex" where
  "dollar_num n = seqs [Lit CHR ''$'', star wsp, Grp n num_dots]"

definition pct_num :: "nat \<Rightarrow> regex" where
  "pct_num n = seqs [Grp n num_dots, star wsp, Lit CHR ''%'']"

definition unit_word :: regex where
  "unit_word = Alt (lits ''billion'') (lits ''million'')"

definition to_and :: regex where
  "to_and = alts [lits ''to'', lits ''and'', Lit CHR ''-'']"

definition pre_tax :: regex where
  "pre_tax = seqs [lits ''pre'', opt (Lit CHR ''-''), lits ''tax'']"

definition rev_pattern1 :: regex where
  "rev_pattern1 =
     seqs [Alt (lits ''revenue'') (lits ''sales''), skip,
           alts [lits ''guidance'', lits ''outlook'', Seq (lits ''expect'') (opt (Lit CHR ''s'')),
                 Seq (lits ''project'') (opt (Lit CHR ''s'')),
                 Seq (lits ''forecast'') (opt (Lit CHR ''s''))],
           skip, dollar_num 1, star wsp, unit_word, skip, to_and, skip, dollar_num 2, star wsp,
           Grp 3 unit_word]"

definition rev_pattern2 :: regex where
  "rev_pattern2 =
     seqs [Alt (lits ''revenue'') (lits ''sales''), skip, lits ''between'', skip, dollar_num 1, skip,
           lits ''and'', skip, dollar_num 2, star wsp, Grp 3 unit_word]"

definition margin_pattern1 :: regex where
  "margin_pattern1 =
     seqs [alts [lits ''margin'', pre_tax, lits ''gross'', lits ''operating''], skip,
           alts [lits ''guidance'', lits ''outlook'', Seq (lits ''expect'') (opt (Lit CHR ''s'')),
                 Seq (lits ''project'') (opt (Lit CHR ''s''))],
           skip, pct_num 1, skip, to_and, skip, pct_num 2]"

definition margin_pattern2 :: regex where
  "margin_pattern2 =
     seqs [Alt (lits ''margin'') pre_tax, skip, lits ''between'', skip, pct_num 1, skip, lits ''and'',
           skip, pct_num 2]"

definition eps_pattern1 :: regex where
  "eps_pattern1 =
     seqs [Alt (lits ''EPS'') (seqs [lits ''earnings'', plus wsp, lits ''per'', plus wsp, lits ''share'']),
           skip,
           alts [lits ''guidance'', lits ''outlook'', Seq (lits ''expect'') (opt (Lit CHR ''s''))],
           skip, dollar_num 1, skip, to_and, skip, dollar_num 2]"

definition fallback_pattern :: regex where
  "fallback_pattern =
     seqs [lits ''guidance'', skip, Grp 1 num_dots, star wsp,
           alts [Lit CHR ''%'', lits ''billion'', lits ''million'']]"

text \<open>
  The period patterns, with \<^verbatim>\<open>re.I\<close>: \<^verbatim>\<open>(?:fiscal|FY|full\s+year)\s*(\d{4})\<close>,
  \<^verbatim>\<open>(Q[1-4])\s*(?:fiscal|FY)?\s*(\d{4})\<close> and \<^verbatim>\<open>(?:first|second|third|fourth)\s+quarter.*?(\d{4})\<close>.
\<close>

definition year4 :: "nat \<Rightarrow> regex" where
  "year4 n = Grp n (times 4 4 digit)"

definition period_fiscal :: regex where
  "period_fiscal =
     seqs [alts [lits ''fiscal'', lits ''FY'', seqs [lits ''full'', plus wsp, lits ''year'']], star wsp,
           year4 1]"

definition period_quarter :: regex where
  "period_quarter =
     seqs [Grp 1 (Seq (Lit CHR ''Q'') (Cls ''1234'')), star wsp,
           opt (Alt (lits ''fiscal'') (lits ''FY'')), star wsp, year4 2]"

definition period_ordinal :: regex where
  "period_ordinal =
     seqs [alts [lits ''first'', lits ''second'', lits ''third'', lits ''fourth''], plus wsp,
           lits ''quarter'', lazy_star Dot, year4 1]"

text \<open>\<^verbatim>\<open>' '.join(m for m in match if m)\<close>\<close>

fun join_nonempty :: "string list \<Rightarrow> string" where
  "join_nonempty [] = []"
| "join_nonempty (m # ms) =
     (if m = [] then join_nonempty ms
      else if join_nonempty ms = [] then m else m @ '' '' @ join_nonempty ms)"

text \<open>
  One entry per match; a match whose numbers \<^verbatim>\<open>float\<close> rejects is passed over (the
  \<^verbatim>\<open>except (ValueError, ZeroDivisionError): continue\<close> of the source).
\<close>

definition midpoint :: "rat \<Rightarrow> rat \<Rightarrow> py_error + rat" where
  "midpoint low high = (case fdiv (fadd low high) 2 of Inl e \<Rightarrow> Inl e | Inr m \<Rightarrow> Inr (py_round 2 m))"

definition range_pct :: "rat \<Rightarrow> rat \<Rightarrow> py_error + pyval" where
  "range_pct low high =
     (if 0 < low
      then (case fdiv (fsub high low) low of
              Inl e \<Rightarrow> Inl e
            | Inr q \<Rightarrow> Inr (VFloat (py_round 2 (fmul q 100))))
      else Inr (VInt 0))"

definition revenue_entry :: "string list \<Rightarrow> pyval option" where
  "revenue_entry m =
     (case float_of_str (m ! 0) of
        Inl e \<Rightarrow> None
      | Inr low \<Rightarrow>
          (case float_of_str (m ! 1) of
             Inl e \<Rightarrow> None
           | Inr high \<Rightarrow>
               (case range_pct low high of
                  Inl e \<Rightarrow> None
                | Inr rp \<Rightarrow>
                    (case midpoint low high of
                       Inl e \<Rightarrow> None
                     | Inr mid \<Rightarrow>
                         Some (VDict [(''low'', VFloat low), (''high'', VFloat high),
                                      (''unit'', VStr (lower (m ! 2))), (''range_pct'', rp),
                                      (''midpoint'', VFloat mid)])))))"

definition margin_entry :: "string list \<Rightarrow> pyval option" where
  "margin_entry m =
     (case float_of_str (m ! 0) of
        Inl e \<Rightarrow> None
      | Inr low \<Rightarrow>
          (case float_of_str (m ! 1) of
             Inl e \<Rightarrow> None
           | Inr high \<Rightarrow>
               (case midpoint low high of
                  Inl e \<Rightarrow> None
                | Inr mid \<Rightarrow>
                    Some (VDict [(''low'', VFloat low), (''high'', VFloat high),
                                 (''midpoint'', VFloat mid),
                                 (''range_bps'', VInt (py_trunc (fmul (fsub high low) 100)))]))))"

definition eps_entry :: "string list \<Rightarrow> pyval option" where
  "eps_entry m =
     (case float_of_str (m ! 0) of
        Inl e \<Rightarrow> None
      | Inr low \<Rightarrow>
          (case float_of_str (m ! 1) of
             Inl e \<Rightarrow> None
           | Inr high \<Rightarrow>
               (case midpoint low high of
                  Inl e \<Rightarrow> None
                | Inr mid \<Rightarrow>
                    Some (VDict [(''low'', VFloat low), (''high'', VFloat high),
                                 (''midpoint'', VFloat mid)]))))"

definition entries :: "(string list \<Rightarrow> pyval option) \<Rightarrow> string list list \<Rightarrow> pyval" where
  "entries entry matches = VList (List.map_filter entry (take 3 matches))"

definition periods_found :: "string \<Rightarrow> string list" where
  "periods_found text =
     findall1 re_I period_fiscal text @
     map join_nonempty (findallN 2 re_I period_quarter text) @
     findall1 re_I period_ordinal text"

definition extract_guidance_data :: "string \<Rightarrow> py_error + pydict" where
  "extract_guidance_data text =
     (let guidance = [];
          matches = findallN 3 re_IS rev_pattern1 text;
          guidance = (if matches \<noteq> [] then dict_set guidance ''revenue_range'' (entries revenue_entry matches)
                      else guidance);
          matches = findallN 3 re_IS rev_pattern2 text;
          guidance = (if matches \<noteq> [] \<and> \<not> has_key guidance ''revenue_range''
                      then dict_set guidance ''revenue_range'' (entries revenue_entry matches)
                      else guidance);
          matches = findallN 2 re_IS margin_pattern1 text;
          guidance = (if matches \<noteq> [] then dict_set guidance ''margin_range'' (entries margin_entry matches)
                      else guidance);
          matches = findallN 2 re_IS margin_pattern2 text;
          guidance = (if matches \<noteq> [] \<and> \<not> has_key guidance ''margin_range''
                      then dict_set guidance ''margin_range'' (entries margin_entry matches)
                      else guidance);
          matches = findallN 2 re_IS eps_pattern1 text;
          guidance = (if matches \<noteq> [] then dict_set guidance ''eps_range'' (entries eps_entry matches)
                      else guidance);
          periods = periods_found text;
          guidance = (if periods \<noteq> []
                      then dict_set guidance ''periods'' (VList (map VStr (take 5 (sort (remdups periods)))))
                      else guidance);
          guidance =
            (if guidance \<noteq> [] then
               (if has_key guidance ''revenue_range'' \<or> has_key guidance ''margin_range'' \<or>
                   has_key guidance ''eps_range''
                then dict_set (dict_set guidance ''confidence'' (VStr ''high''))
                       ''source'' (VStr ''structured_guidance'')
                else dict_set (dict_set guidance ''confidence'' (VStr ''low''))
                       ''source'' (VStr ''period_mentions_only''))
             else guidance)
      in if guidance = [] then
           (case findall1 re_IS fallback_pattern text of
              [] \<Rightarrow> Inr guidance
            | m # ms \<Rightarrow>
                (case floats_of (take 5 (m # ms)) of
                   Inl e \<Rightarrow> Inl e
                 | Inr vs \<Rightarrow> Inr [(''guidance_values'', VList (map VFloat vs)),
                                  (''confidence'', VStr ''very_low''),
                                  (''source'', VStr ''unstructured_mentions'')]))
         else Inr guidance)"

subsection \<open>Board nominees: \<^verbatim>\<open>extract_board_nominees\<close>\<close>

definition STOPWORDS :: "string list" where
  "STOPWORDS =
     [''committee'', ''board'', ''director'', ''nominee'', ''occupation'',
      ''principal'', ''retired'', ''managing'', ''election'', ''proposal'',
      ''class'', ''term'', ''age'', ''since'', ''current'', ''former'',
      ''independent'', ''non'', ''executive'', ''member'', ''chairman'',
      ''president'', ''officer'', ''table'', ''following'', ''information'',
      ''experience'', ''qualifications'', ''skills'', ''company'', ''board of'']"

text \<open>\<^verbatim>\<open>any(stop in name.lower() for stop in STOPWORDS)\<close>\<close>

definition has_stopword :: "string \<Rightarrow> bool" where
  "has_stopword name = list_ex (\<lambda>stop. str_in stop (lower name)) STOPWORDS"

text \<open>
  The patterns, used without flags. The name of the first three is
  \<^verbatim>\<open>([A-Z][a-z]+(?:\s+[A-Z]\.?)?\s+[A-Z][a-z]+)\<close>; they are
  \<^item> \<^verbatim>\<open>(?:Nominee|Director|Candidate):\s*\<close> before the name,
  \<^item> the name before \<^verbatim>\<open>[,\s]+Age\s+\d{2}\<close>,
  \<^item> the name before \<^verbatim>\<open>\s+has\s+(?:served|been)\<close>,

  and the table pattern is \<^verbatim>\<open>([A-Z][a-z]+(?:\s+[A-Z][a-z.]+){1,3})\s{3,}\d{2}\<close>, after which
  \<^verbatim>\<open>\s*(Jr\.?|Sr\.?|III|IV)$\<close> is removed from the name.
\<close>

definition cap_word :: regex where
  "cap_word = Seq (Cls uppers) (plus (Cls lowers))"

definition person :: regex where
  "person = Grp 1 (seqs [cap_word, opt (seqs [plus wsp, Cls uppers, opt (Lit CHR ''.'')]), plus wsp,
                         cap_word])"

definition nominee_pattern1 :: regex where
  "nominee_pattern1 =
     seqs [alts [lits ''Nominee'', lits ''Director'', lits ''Candidate''], Lit CHR '':'', star wsp, person]"

definition nominee_pattern2 :: regex where
  "nominee_pattern2 =
     seqs [person, plus (Cls (CHR '','' # py_space)), lits ''Age'', plus wsp, times 2 2 digit]"

definition nominee_pattern3 :: regex where
  "nominee_pattern3 =
     seqs [person, plus wsp, lits ''has'', plus wsp, Alt (lits ''served'') (lits ''been'')]"

definition table_pattern :: regex where
  "table_pattern =
     seqs [Grp 1 (Seq cap_word
                    (times 1 3 (seqs [plus wsp, Cls uppers, plus (Cls (lowers @ ''.''))]))),
           at_least 3 wsp, times 2 2 digit]"

definition suffix_pattern :: regex where
  "suffix_pattern =
     seqs [star wsp,
           Grp 1 (alts [Seq (lits ''Jr'') (opt (Lit CHR ''.'')), Seq (lits ''Sr'') (opt (Lit CHR ''.'')),
                        lits ''III'', lits ''IV'']),
           Eol]"

text \<open>The candidates of one of the first three patterns, and those of the table pattern.\<close>

definition labelled :: "regex \<Rightarrow> string \<Rightarrow> string list" where
  "labelled pat text = map strip (filter (\<lambda>m. \<not> has_stopword m) (findall1 no_flags pat text))"

definition table_name :: "match \<Rightarrow> string" where
  "table_name mt = strip (re_sub no_flags suffix_pattern [] (strip (group_or_empty mt 1)))"

definition table_names :: "string \<Rightarrow> string list" where
  "table_names text =
     filter (\<lambda>name. 2 \<le> length (split_ws name) \<and> \<not> has_stopword name)
       (map table_name (finditer no_flags table_pattern text))"

text \<open>The validation of a candidate, after \<^verbatim>\<open>name.strip()\<close>.\<close>

definition title_case :: "string list \<Rightarrow> bool" where
  "title_case ws = list_all (\<lambda>w. is_upper (hd w)) (filter (\<lambda>w. 1 < length w) ws)"

definition valid_name :: "string \<Rightarrow> bool" where
  "valid_name name =
     (let ws = split_ws name
      in 2 \<le> length ws \<and> length ws \<le> 4 \<and> \<not> has_stopword name \<and> title_case ws \<and>
         \<not> List.member [''The Board'', ''Board Of'', ''Our Board'', ''The Company''] name)"

definition extract_board_nominees :: "string \<Rightarrow> string list" where
  "extract_board_nominees text0 =
     (let nominees = labelled nominee_pattern1 text0 @ labelled nominee_pattern2 text0 @
                     labelled nominee_pattern3 text0;
          text = replace ''&#160;'' '' '' (replace ''&nbsp;'' '' '' text0);
          nominees = nominees @ table_names text
      in take 15 (dedup (filter valid_name (map strip nominees))))"

section \<open>Section extraction: \<^verbatim>\<open>extract_all_sections\<close>\<close>

text \<open>
  A pattern table is chosen by the form type; every pattern of the table is searched for in
  the text with \<^verbatim>\<open>re.I | re.S\<close>. The tables are those of the source, entry for entry:
  \<^verbatim>\<open>(Item\s+1\.01.*?)(?=Item\s+\d|\Z)\<close> and so on; \<^verbatim>\<open>[\s\S]{0,n}\<close> is \<open>upto n\<close>.
\<close>

definition upto :: "int \<Rightarrow> regex" where
  "upto n = times 0 n any_char"

definition item :: "string \<Rightarrow> regex" where
  "item num = seqs [lits ''Item'', plus wsp, lits num]"

definition item_section :: "string \<Rightarrow> string \<Rightarrow> regex" where
  "item_section major minor =
     Seq (Grp 1 (seqs [item major, Lit CHR ''.'', lits minor, lazy_star Dot]))
         (Look True (Alt (seqs [lits ''Item'', plus wsp, digit]) EndZ))"

definition patterns_8k :: "(string \<times> regex) list" where
  "patterns_8k =
     [(''item_1_01'', item_section ''1'' ''01''),
      (''item_2_01'', item_section ''2'' ''01''),
      (''item_2_02'', item_section ''2'' ''02''),
      (''item_5_02'', item_section ''5'' ''02''),
      (''item_8_01'', item_section ''8'' ''01''),
      (''ma_activity'',
       seqs [Grp 1 (alts [Seq (Cls ''Mm'') (lits ''erger''), Seq (Cls ''Aa'') (lits ''cquisition''),
                          Seq (Cls ''Dd'') (lits ''ivestiture''), Seq (Cls ''Dd'') (lits ''eal'')]),
             star (NCls [NL]), lazy_star Dot, Look True (Alt (lits [NL, NL]) EndZ)]),
      (''guidance_section'',
       seqs [alts [lits ''guidance'', lits ''outlook'', Seq (lits ''expect'') (opt (Lit CHR ''s'')),
                   Seq (lits ''projection'') (opt (Lit CHR ''s'')),
                   Seq (lits ''forecast'') (opt (Lit CHR ''s''))],
             upto 4000]),
      (''earnings_release'',
       seqs [alts [lits ''EARNINGS RELEASE'', lits ''RESULTS OF OPERATIONS'', lits ''QUARTERLY RESULTS''],
             upto 6000]),
      (''financial_outlook'',
       seqs [alts [lits ''Financial Outlook'', lits ''Business Outlook'', lits ''2025 Outlook''],
             upto 5000]),
      (''board_changes'',
       seqs [lits ''director'', star Dot,
             alts [lits ''appointed'', lits ''elected'', lits ''resigned'', lits ''nominated''],
             upto 3000])]"

definition patterns_proxy :: "(string \<times> regex) list" where
  "patterns_proxy =
     [(''board_nominees'',
       seqs [alts [lits ''ELECTION OF DIRECTORS'',
                   seqs [lits ''PROPOSAL'', star Dot, lits ''ELECT'', star Dot, lits ''DIRECTOR''],
                   Seq (lits ''DIRECTOR NOMINEE'') (opt (Lit CHR ''S''))],
             upto 8000]),
      (''nominee_details'',
       seqs [Alt (seqs [lits ''Class'', plus wsp, plus (Cls ''I''), plus wsp, lits ''Director''])
                 (seqs [lits ''Nominee'', opt (Cls ''s''), plus wsp, lits ''for'', plus wsp,
                        lits ''Election'']),
             upto 5000]),
      (''director_qualifications'',
       seqs [Alt (lits ''DIRECTOR QUALIFICATIONS'')
                 (Seq (lits ''NOMINEE BIOGRAPHIE'') (opt (Lit CHR ''S''))),
             upto 8000]),
      (''proposal_1'',
       Seq (Grp 1 (seqs [lits ''PROPOSAL'', plus wsp, Alt (lits ''1'') (lits ''ONE''), lazy_star Dot]))
           (Look True (Alt (seqs [lits ''PROPOSAL'', plus wsp, Alt (lits ''2'') (lits ''TWO'')]) EndZ)))]"

definition patterns_periodic :: "(string \<times> regex) list" where
  "patterns_periodic =
     [(''business'',
       Seq (Grp 1 (seqs [item ''1'', opt (Lit CHR ''.''), plus wsp, lits ''Business'', lazy_star Dot]))
           (Look True (Alt (item ''1A'') EndZ))),
      (''risk_factors'',
       Seq (Grp 1 (seqs [item ''1A'', opt (Lit CHR ''.''), plus wsp, lits ''Risk'', plus wsp,
                         lits ''Factors'', lazy_star Dot]))
           (Look True (Alt (item ''1B'') EndZ))),
      (''mda'',
       Seq (Grp 1 (seqs [item ''7'', opt (Lit CHR ''.''), plus wsp, lits ''Management'',
                         star (NCls [NL]), lazy_star Dot]))
           (Look True (alts [item ''7A'', item ''8'', EndZ]))),
      (''financial_statements'',
       Seq (Grp 1 (seqs [item ''8'', opt (Lit CHR ''.''), plus wsp, lits ''Financial'', plus wsp,
                         lits ''Statements'', lazy_star Dot]))
           (Look True (Alt (item ''9'') EndZ))),
      (''subscriber_metrics'',
       seqs [alts [seqs [lits ''paid'', star Dot, lits ''member''], lits ''subscriber'',
                   seqs [lits ''streaming'', star Dot, lits ''member''],
                   seqs [lits ''average'', star Dot, lits ''user'']],
             upto 3000]),
      (''revenue_per_user'',
       seqs [alts [seqs [lits ''average'', star Dot, lits ''revenue'', star Dot,
                         Alt (lits ''per'') (Lit CHR ''/'')],
                   lits ''ARPU'', lits ''ARPPU''],
             upto 3000]),
      (''membership_table'',
       seqs [Alt (lits ''membership'') (lits ''subscriber''), star Dot,
             Alt (lits ''table'') (lits ''data''), upto 5000]),
      (''quarterly_table'',
       seqs [alts [Seq (Lit CHR ''Q'') (Cls ''1234''), lits ''First'', lits ''Second'', lits ''Third'',
                   lits ''Fourth''],
             lazy_star Dot, lits ''Quarter'', upto 5000]),
      (''three_months_ended'',
       seqs [Alt (lits ''Three'') (lits ''3''), plus wsp, lits ''Months'', plus wsp, lits ''Ended'',
             upto 4000]),
      (''margin_analysis'',
       seqs [alts [lits ''gross margin'', lits ''operating margin'', lits ''pre-tax margin'',
                   lits ''profit margin''],
             upto 3000])]"

text \<open>
  \<^verbatim>\<open>m.group(0) if m.lastindex is None else m.group(1)\<close>: the patterns have no group or one
  group that takes part in every match.
\<close>

definition section_content :: "match \<Rightarrow> string" where
  "section_content mt = (case m_group mt 1 of None \<Rightarrow> group0 mt | Some g \<Rightarrow> g)"

fun section_loop :: "(string \<times> regex) list \<Rightarrow> string \<Rightarrow> string dict \<Rightarrow> string dict" where
  "section_loop [] text sections = sections"
| "section_loop ((name, pattern) # ps) text sections =
     section_loop ps text
       (case re_search re_IS pattern text of
          None \<Rightarrow> sections
        | Some mt \<Rightarrow> dict_set sections name (strip (take_int 12000 (section_content mt))))"

definition extract_all_sections :: "string \<Rightarrow> string \<Rightarrow> string dict" where
  "extract_all_sections text fm =
     (let form_upper = upper fm;
          patterns = (if str_in ''8-K'' form_upper then patterns_8k
                      else if str_in ''DEF 14A'' form_upper \<or> str_in ''DEFA14A'' form_upper
                      then patterns_proxy
                      else patterns_periodic)
      in section_loop patterns text [])"

section \<open>The document fetcher: \<^verbatim>\<open>fetch_filing_and_exhibit_html\<close>\<close>

text \<open>
  The fetcher reads and writes cache files and sends HTTP requests. Its state is the
  \<open>world\<close>: the files on disk and the requests sent so far. What it cannot decide is the
  environment \<open>env\<close>: the answer of the network to a request (which may depend on the
  requests before it), whether a file can be written, and the HTML parser (the tags of a
  document in document order, and its text without scripts and styles).
\<close>

datatype cache_file = Unreadable | Content string

record world =
  files :: "string \<Rightarrow> cache_file option"
  requests :: "string list"

datatype response = Http int "string option" string | TimedOut | Failed

text \<open>
  \<open>Http status retry_after body\<close> is an answer with its status, its \<^verbatim>\<open>Retry-After\<close> header
  if any, and its body; \<open>TimedOut\<close> is \<^verbatim>\<open>asyncio.TimeoutError\<close>, \<open>Failed\<close> any other
  exception of the request.
\<close>

record tag =
  tag_name :: string
  tag_text :: string
  tag_href :: "string option"
  inner_href :: "string option"

text \<open>
  A tag as the link scan reads it: its name, \<^verbatim>\<open>tag.get_text(strip=True)\<close>, its own
  \<^verbatim>\<open>href\<close>, and the \<^verbatim>\<open>href\<close> of the first anchor inside it that has one.
\<close>

record env =
  net :: "string list \<Rightarrow> string \<Rightarrow> response"
  writable :: "string \<Rightarrow> bool"
  tags_of :: "string \<Rightarrow> tag list"
  text_of :: "string \<Rightarrow> string"

definition http_get :: "env \<Rightarrow> world \<Rightarrow> string \<Rightarrow> response \<times> world" where
  "http_get e w url = (net e (requests w) url, w\<lparr>requests := requests w @ [url]\<rparr>)"

definition read_text :: "world \<Rightarrow> string \<Rightarrow> string option" where
  "read_text w path = (case files w path of Some (Content t) \<Rightarrow> Some t | Some Unreadable \<Rightarrow> None | None \<Rightarrow> None)"

definition write_text :: "env \<Rightarrow> world \<Rightarrow> string \<Rightarrow> string \<Rightarrow> world option" where
  "write_text e w path t =
     (if writable e path then Some (w\<lparr>files := (files w)(path \<mapsto> Content t)\<rparr>) else None)"

text \<open>Truth value of an optional string: \<^verbatim>\<open>None\<close> and the empty string are false.\<close>

definition nonempty :: "string option \<Rightarrow> bool" where
  "nonempty s = (case s of None \<Rightarrow> False | Some t \<Rightarrow> t \<noteq> [])"

definition cache_dir :: string where
  "cache_dir = ''data/sec/''"

definition exhibit_name :: "string \<Rightarrow> string" where
  "exhibit_name cache_filename = replace ''.txt'' ''_ex991.txt'' cache_filename"

text \<open>
  \<^verbatim>\<open>"\n".join(line.strip() for line in text.splitlines() if line.strip())\<close>
\<close>

fun join_lines :: "string list \<Rightarrow> string" where
  "join_lines [] = []"
| "join_lines [l] = l"
| "join_lines (l # ls) = l @ [NL] @ join_lines ls"

definition clean_lines :: "string \<Rightarrow> string" where
  "clean_lines t = join_lines (filter (\<lambda>l. l \<noteq> []) (map strip (splitlines t)))"

text \<open>Step 3: the first tag that looks like a link to Exhibit 99.1 gives the URL.\<close>

definition looks_like_exhibit :: "string \<Rightarrow> string \<Rightarrow> bool" where
  "looks_like_exhibit text href_lower =
     (str_in ''99.1'' text \<or> str_in ''exhibit 99'' text \<or> str_in ''press release'' text \<or>
      (str_in ''earnings'' href_lower \<and> str_in ''.htm'' href_lower) \<or>
      (str_in ''press'' href_lower \<and> str_in ''.htm'' href_lower) \<or>
      (str_in ''q1fy'' href_lower \<or> str_in ''q2fy'' href_lower \<or> str_in ''q3fy'' href_lower \<or>
       str_in ''q4fy'' href_lower))"

definition full_url :: "string \<Rightarrow> string \<Rightarrow> string \<Rightarrow> string" where
  "full_url cik accession href =
     (if starts_with ''http'' href then href
      else if starts_with ''/'' href then ''https://www.sec.gov'' @ href
      else ''https://www.sec.gov/Archives/edgar/data/'' @ cik @ ''/'' @ replace ''-'' [] accession @
           ''/'' @ href)"

fun find_exhibit_url :: "string \<Rightarrow> string \<Rightarrow> tag list \<Rightarrow> string option" where
  "find_exhibit_url cik accession [] = None"
| "find_exhibit_url cik accession (t # ts) =
     (let text = lower (tag_text t);
          href = (if tag_name t = ''a'' \<and> nonempty (tag_href t) then tag_href t
                  else if (tag_name t = ''td'' \<or> tag_name t = ''tr'') \<and> str_in ''99.1'' text
                  then inner_href t
                  else None)
      in if \<not> nonempty href then find_exhibit_url cik accession ts
         else if looks_like_exhibit text (lower (the href)) then Some (full_url cik accession (the href))
         else find_exhibit_url cik accession ts)"

text \<open>Step 4: the exhibit, when a URL was found; any exception resets the exhibit text.\<close>

definition fetch_exhibit :: "env \<Rightarrow> world \<Rightarrow> string option \<Rightarrow> string option \<Rightarrow> string option \<times> world" where
  "fetch_exhibit e w exhibit_url exhibit_text =
     (case exhibit_url of
        None \<Rightarrow> (exhibit_text, w)
      | Some url \<Rightarrow>
          (case http_get e w url of
             (Http status ra body, w') \<Rightarrow>
               (if status = 200 then (Some (clean_lines (text_of e body)), w') else (exhibit_text, w'))
           | (TimedOut, w') \<Rightarrow> (None, w')
           | (Failed, w') \<Rightarrow> (None, w')))"

text \<open>Step 6: both texts are written when caching is on; a failed write ends the step.\<close>

definition save_cache :: "env \<Rightarrow> world \<Rightarrow> bool \<Rightarrow> string option \<Rightarrow> string \<Rightarrow> string option \<Rightarrow> world" where
  "save_cache e w use_disk_cache cache_filename filing_text exhibit_text =
     (if use_disk_cache \<and> nonempty cache_filename then
        (case write_text e w (cache_dir @ the cache_filename) filing_text of
           None \<Rightarrow> w
         | Some w' \<Rightarrow>
             (if nonempty exhibit_text then
                (case write_text e w' (cache_dir @ exhibit_name (the cache_filename)) (the exhibit_text) of
                   None \<Rightarrow> w'
                 | Some w'' \<Rightarrow> w'')
              else w'))
      else w)"

text \<open>
  Steps 2 to 6, for the attempts that are left: a time-out and a status 429 (whose
  \<^verbatim>\<open>Retry-After\<close> header, when there is one, has to be an integer) go to the next attempt,
  any other failure and any status but 200 return the empty text.
\<close>

fun download ::
  "nat \<Rightarrow> env \<Rightarrow> string \<Rightarrow> string \<Rightarrow> string \<Rightarrow> bool \<Rightarrow> string option \<Rightarrow> string option \<Rightarrow> world \<Rightarrow>
   (string \<times> string option) \<times> world" where
  "download 0 e url cik accession use_disk_cache cache_filename exhibit_text w = (([], None), w)"
| "download (Suc attempts) e url cik accession use_disk_cache cache_filename exhibit_text w =
     (case http_get e w url of
        (TimedOut, w1) \<Rightarrow> download attempts e url cik accession use_disk_cache cache_filename exhibit_text w1
      | (Failed, w1) \<Rightarrow> (([], None), w1)
      | (Http status retry_after original_html, w1) \<Rightarrow>
          if status = 429 then
            (case (case retry_after of None \<Rightarrow> Inr 10 | Some h \<Rightarrow> int_of_str h) of
               Inl err \<Rightarrow> (([], None), w1)
             | Inr wait_time \<Rightarrow>
                 download attempts e url cik accession use_disk_cache cache_filename exhibit_text w1)
          else if status \<noteq> 200 then (([], None), w1)
          else
            (let exhibit_url = find_exhibit_url cik accession (tags_of e original_html);
                 (exhibit_text', w2) = fetch_exhibit e w1 exhibit_url exhibit_text;
                 filing_text = clean_lines (text_of e original_html);
                 w3 = save_cache e w2 use_disk_cache cache_filename filing_text exhibit_text'
             in ((filing_text, exhibit_text'), w3)))"

text \<open>
  The whole function. Step 1 looks into the cache when caching is on and a cache file name
  is given; a filing text found there ends the call.
\<close>

definition fetch_filing_and_exhibit_html ::
  "env \<Rightarrow> string \<Rightarrow> string \<Rightarrow> string \<Rightarrow> bool \<Rightarrow> string option \<Rightarrow> world \<Rightarrow>
   (string \<times> string option) \<times> world" where
  "fetch_filing_and_exhibit_html e url cik accession use_disk_cache cache_filename w =
     (if use_disk_cache \<and> nonempty cache_filename then
        (let filing_text = read_text w (cache_dir @ the cache_filename);
             exhibit_text = read_text w (cache_dir @ exhibit_name (the cache_filename))
         in if nonempty filing_text \<and> nonempty exhibit_text then ((the filing_text, exhibit_text), w)
            else if nonempty filing_text \<and> \<not> nonempty exhibit_text then ((the filing_text, None), w)
            else download 3 e url cik accession use_disk_cache cache_filename exhibit_text w)
      else download 3 e url cik accession use_disk_cache cache_filename None w)"

section \<open>The pipeline: \<^verbatim>\<open>sec_search\<close>\<close>

record entry =
  e_date :: string
  e_form :: string
  e_accession :: string
  e_url :: string
  e_financial_metrics :: pydict
  e_sections :: "string dict"
  e_guidance_data :: pydict
  e_board_nominees :: "string list"
  e_sections_found :: "string list"
  e_metrics_found :: "string list"

text \<open>
  Step 5 of the loop: guidance is extracted for an 8-K only, from the guidance section when
  there is one, and from the combined text when that gave nothing.
\<close>

definition guidance_of :: "string \<Rightarrow> string dict \<Rightarrow> string \<Rightarrow> py_error + pydict" where
  "guidance_of fm sections combined_text =
     (if str_in ''8-K'' (upper fm) then
        (case (case dict_get sections ''guidance_section'' of
                 None \<Rightarrow> Inr []
               | Some s \<Rightarrow> extract_guidance_data s) of
           Inl err \<Rightarrow> Inl err
         | Inr guidance \<Rightarrow> if guidance = [] then extract_guidance_data combined_text else Inr guidance)
      else Inr [])"

text \<open>
  What one fetched filing contributes to the timeline: nothing when all four of sections,
  metrics, guidance and nominees are empty, else its entry. An exception of an extractor is
  not caught.
\<close>

definition timeline_entry ::
  "filing \<Rightarrow> string \<Rightarrow> string \<Rightarrow> string option \<Rightarrow> py_error + entry option" where
  "timeline_entry f doc_url filing_text exhibit_text =
     (let sections = extract_all_sections filing_text (form f);
          sections = (if nonempty exhibit_text then dict_set sections ''exhibit_99_1'' (the exhibit_text)
                      else sections);
          combined_text =
            (if nonempty exhibit_text then the exhibit_text @ [NL, NL] @ filing_text
             else (case dict_get sections ''earnings_release'' of
                     Some s \<Rightarrow> s @ [NL, NL] @ filing_text
                   | None \<Rightarrow> filing_text))
      in case extract_financial_data combined_text of
           Inl err \<Rightarrow> Inl err
         | Inr metrics \<Rightarrow>
             (case guidance_of (form f) sections combined_text of
                Inl err \<Rightarrow> Inl err
              | Inr guidance \<Rightarrow>
                  let nominees = (if str_in ''DEF 14A'' (upper (form f)) then extract_board_nominees filing_text
                                  else [])
                  in if sections \<noteq> [] \<or> metrics \<noteq> [] \<or> guidance \<noteq> [] \<or> nominees \<noteq> []
                     then Inr (Some \<lparr>e_date = filing_date f, e_form = form f,
                                      e_accession = accession_number f, e_url = doc_url,
                                      e_financial_metrics = metrics, e_sections = sections,
                                      e_guidance_data = guidance, e_board_nominees = nominees,
                                      e_sections_found = keys sections, e_metrics_found = keys metrics\<rparr>)
                     else Inr None))"

definition doc_url_of :: "string \<Rightarrow> filing \<Rightarrow> string" where
  "doc_url_of cik f =
     ''https://www.sec.gov/Archives/edgar/data/'' @ cik @ ''/'' @ replace ''-'' [] (accession_number f) @
     ''/'' @ primary_document f"

definition cache_filename_of :: "string \<Rightarrow> filing \<Rightarrow> string" where
  "cache_filename_of cik f =
     ''CIK'' @ cik @ ''-'' @ replace ''-'' [] (accession_number f) @ ''-'' @ primary_document f @ ''.txt''"

text \<open>The loop over the located filings; a filing without text is passed over.\<close>

fun process_filings ::
  "env \<Rightarrow> string \<Rightarrow> bool \<Rightarrow> filing list \<Rightarrow> entry list \<Rightarrow> world \<Rightarrow> py_error + entry list \<times> world" where
  "process_filings e cik use_disk_cache [] timeline w = Inr (timeline, w)"
| "process_filings e cik use_disk_cache (f # fs) timeline w =
     (case fetch_filing_and_exhibit_html e (doc_url_of cik f) cik (accession_number f) use_disk_cache
             (Some (cache_filename_of cik f)) w of
        ((filing_text, exhibit_text), w') \<Rightarrow>
          if filing_text = [] then process_filings e cik use_disk_cache fs timeline w'
          else
            (case timeline_entry f (doc_url_of cik f) filing_text exhibit_text of
               Inl err \<Rightarrow> Inl err
             | Inr None \<Rightarrow> process_filings e cik use_disk_cache fs timeline w'
             | Inr (Some en) \<Rightarrow> process_filings e cik use_disk_cache fs (timeline @ [en]) w'))"

text \<open>
  The search itself. Its arguments are the \<open>query\<close>; the answers of the registry, of the
  archive and of the filings index are part of the \<open>sources\<close>. The \<^verbatim>\<open>keywords\<close> argument of
  the source has no effect on the result and is left out.
\<close>

record query =
  q_company_name :: "string option"
  q_ticker_symbol :: "string option"
  q_cik :: "string option"
  q_form_types :: "string list"
  q_start_date :: "string option"
  q_end_date :: "string option"
  q_use_disk_cache :: bool

record index =
  i_name :: "string option"
  i_sic :: "string option"
  i_sicDescription :: "string option"
  i_recent :: "filing list"

datatype submissions = SubStatus int | SubFailed string | SubOk index

record sources =
  s_registry :: "cell list list option"
  s_archive :: archive_load
  s_submissions :: submissions

record report =
  r_company :: "string option"
  r_ticker_symbol :: string
  r_cik :: string
  r_sic :: "string option"
  r_sic_description :: "string option"
  r_timeline :: "entry list"
  r_total_found :: nat

datatype outcome = Failure string "string option" | Report report | Raised py_error

text \<open>
  Resolving the identifier: a given \<^verbatim>\<open>cik\<close> is used as it is; else the registry is asked,
  and the archive when the registry found nothing. The archive lookup strips the company
  name, which raises \<^verbatim>\<open>AttributeError\<close> when the name is \<^verbatim>\<open>None\<close>.
\<close>

definition resolve :: "query \<Rightarrow> sources \<Rightarrow> py_error + string option \<times> string option" where
  "resolve q src =
     (if (nonempty (q_company_name q) \<or> nonempty (q_ticker_symbol q)) \<and> \<not> nonempty (q_cik q) then
        (case get_cik_from_ticker_or_name (q_company_name q) (q_ticker_symbol q) (s_registry src) of
           (cik, ticker) \<Rightarrow>
             if nonempty cik then Inr (cik, ticker)
             else (case q_company_name q of
                     None \<Rightarrow> Inl AttributeError
                   | Some n \<Rightarrow> Inr (get_cik_from_archive n (s_archive src), ticker)))
      else Inr (q_cik q, q_ticker_symbol q))"

definition name_or_ticker :: "query \<Rightarrow> string" where
  "name_or_ticker q =
     (if nonempty (q_company_name q) then the (q_company_name q)
      else (case q_ticker_symbol q of None \<Rightarrow> ''None'' | Some t \<Rightarrow> t))"

definition sec_search :: "env \<Rightarrow> sources \<Rightarrow> query \<Rightarrow> world \<Rightarrow> outcome \<times> world" where
  "sec_search e src q w =
     (case resolve q src of
        Inl err \<Rightarrow> (Raised err, w)
      | Inr (cik, ticker) \<Rightarrow>
          if \<not> nonempty cik
          then (Failure (''Company not found: '' @ name_or_ticker q)
                  (Some ''Try variations of the name or use ticker symbol''), w)
          else
            (case s_submissions src of
               SubStatus st \<Rightarrow> (Failure (''SEC API returned '' @ int_str st) None, w)
             | SubFailed msg \<Rightarrow> (Failure (''Failed to fetch submissions: '' @ msg) None, w)
             | SubOk data \<Rightarrow>
                 (case locate_filings (q_form_types q) (q_start_date q) (q_end_date q) (i_recent data) of
                    Inl msg \<Rightarrow> (Failure msg None, w)
                  | Inr raw \<Rightarrow>
                      (case process_filings e (the cik) (q_use_disk_cache q) raw [] w of
                         Inl err \<Rightarrow> (Raised err, w)
                       | Inr (tline, w') \<Rightarrow>
                           (Report \<lparr>r_company = i_name data,
                                    r_ticker_symbol = (case ticker of None \<Rightarrow> [] | Some t \<Rightarrow> t),
                                    r_cik = the cik, r_sic = i_sic data,
                                    r_sic_description = i_sicDescription data,
                                    r_timeline = tline, r_total_found = length tline\<rparr>, w')))))"

section \<open>A search over one filing without signal\<close>

text \<open>
  A company given by its identifier, one 8-K in its index, and the text of that filing in
  the disk cache: a sentence that none of the patterns matches. The network is down.
\<close>

definition quiet_text :: string where
  "quiet_text = ''Nothing to report.''"

definition quiet_filing :: filing where
  "quiet_filing = \<lparr>form = ''8-K'', filing_date = ''2024-05-02'',
                    accession_number = ''0000320193-24-000069'', primary_document = ''aapl-8k.htm''\<rparr>"

definition quiet_query :: query where
  "quiet_query = \<lparr>q_company_name = None, q_ticker_symbol = None, q_cik = Some ''0000320193'',
                   q_form_types = [''10-K'', ''10-K/A'', ''10-Q'', ''10-Q/A'', ''8-K'', ''8-K/A'',
                                   ''DEF 14A'', ''DEFA14A''],
                   q_start_date = None, q_end_date = None, q_use_disk_cache = True\<rparr>"

definition quiet_sources :: sources where
  "quiet_sources = \<lparr>s_registry = None, s_archive = DownloadFailed,
                     s_submissions = SubOk \<lparr>i_name = Some ''Apple Inc.'', i_sic = Some ''3571'',
                                             i_sicDescription = Some ''Electronic Computers'',
                                             i_recent = [quiet_filing]\<rparr>\<rparr>"

definition offline :: env where
  "offline = \<lparr>net = (\<lambda>log url. Failed), writable = (\<lambda>path. False), tags_of = (\<lambda>html. []),
               text_of = (\<lambda>html. html)\<rparr>"

definition quiet_world :: world where
  "quiet_world =
     \<lparr>files = map_of [(''data/sec/CIK0000320193-000032019324000069-aapl-8k.htm.txt'', Content quiet_text)],
      requests = []\<rparr>"

definition quiet_entry :: entry where
  "quiet_entry =
     \<lparr>e_date = ''2024-05-02'', e_form = ''8-K'', e_accession = ''0000320193-24-000069'',
      e_url = ''https://www.sec.gov/Archives/edgar/data/0000320193/000032019324000069/aapl-8k.htm'',
      e_financial_metrics = [(''arppu_data'', VDict []), (''membership_data'', VDict [])],
      e_sections = [], e_guidance_data = [], e_board_nominees = [], e_sections_found = [],
      e_metrics_found = [''arppu_data'', ''membership_data'']\<rparr>"

section \<open>Example texts\<close>



definition guidance_example :: string where
  "guidance_example = ''revenue guidance of $5.0 billion to $5.2 billion''"

text \<open>
  The table of the comment in \<^verbatim>\<open>extract_board_nominees\<close>, after a sentence with the two
  phrases that are not names.
\<close>

definition bbsi_example :: string where
  "bbsi_example =
     ''Report of the Nominating Committee. Principal Occupation is listed below.'' @ [NL] @
     ''Thomas J. Carley              65    Chairman of the Board'' @ [NL] @
     ''Anthony Meeker                73    Director''"

definition cached_world :: "string \<Rightarrow> string \<Rightarrow> world" where
  "cached_world filing_text exhibit_text =
     \<lparr>files = map_of [(''data/sec/CIK0000320193-000032019324000069-aapl-8k.htm.txt'', Content filing_text),
                       (''data/sec/CIK0000320193-000032019324000069-aapl-8k.htm_ex991.txt'',
                        Content exhibit_text)],
      requests = []\<rparr>"

definition malformed_example :: string where
  "malformed_example = ''paid members 1.2.3 million''"



text \<open>A network that answers every request with a fresh page, and a disk that can be written.\<close>

definition online :: env where
  "online = \<lparr>net = (\<lambda>log url. Http 200 None ''fresh page''), writable = (\<lambda>path. True),
              tags_of = (\<lambda>html. []), text_of = (\<lambda>html. html)\<rparr>"

definition cached_name :: string where
  "cached_name = ''CIK0000320193-000032019324000069-aapl-8k.htm.txt''"

section \<open>Properties of identifier resolution\<close>

text \<open>
  Claim C7, as amended. The registry rows are scanned in order, and the first row with at
  least four cells and an integer identifier whose ticker equals the upper-cased query
  ticker, or whose normalized name equals the normalized query name, decides the result:
  its zero-padded identifier and its ticker are returned. No such row: nothing is found.
\<close>

theorem scan_rows_first_hit:
  "scan_rows company_clean ticker_upper rows =
     (case List.find (row_hit company_clean ticker_upper) rows of
        None \<Rightarrow> (None, None)
      | Some row \<Rightarrow> (Some (row_cik row), Some (row_ticker row)))"
proof (induction rows)
  case Nil
  show ?case by simp
next
  case (Cons row rows)
  show ?case
  proof (cases "py_int (row ! 0)")
    case (Inl e)
    then show ?thesis using Cons by (simp add: row_hit_def)
  next
    case (Inr n)
    then show ?thesis using Cons
      by (auto simp: row_hit_def row_ticker_def row_name_def row_cik_def Let_def)
  qed
qed

text \<open>
  Claim C7 as stated fails: the second row of \<open>example_registry\<close> carries the query ticker,
  and the resolver returns the identifier of the first row, whose name matches.
\<close>

theorem ticker_priority_counterexample:
  "row_ticker (example_registry ! 1) = upper ''msft'' \<and>
   row_cik (example_registry ! 1) = ''0000789019'' \<and>
   get_cik_from_ticker_or_name (Some ''Apple'') (Some ''msft'') (Some example_registry)
     = (Some ''0000320193'', Some ''AAPL'')"
  by code_simp

text \<open>
  Claim C4 at an archive line whose identifier has fewer than ten digits: the line is padded
  while the colon that ends the identifier is still attached, and the identifier returned
  has nine characters.
\<close>

theorem archive_identifier_nine_characters:
  "get_cik_from_archive ''Acme'' (ArchiveText ''ACME:12:'') = Some ''000000012'' \<and>
   length ''000000012'' = 9"
  by code_simp

section \<open>Properties of the filing locator\<close>

lemma raw_filings_mem:
  "f \<in> set (raw_filings form_types h s e recent) \<longleftrightarrow>
     f \<in> set recent \<and> form_wanted form_types (form f) \<and> date_kept h s e (filing_date f)"
  by (induction recent) auto

lemma strptime_empty: "strptime [] = None"
  by code_simp

lemma date_less_irrefl: "\<not> date_less d d"
  by (cases d) auto

text \<open>
  Claim C8. With both bounds given and parsed, the search goes through, and a filing of a
  wanted form whose date parses is located exactly when its date is neither before the
  start nor after the end. So, for a start not after the end, a filing dated on the start
  or on the end is located, and a filing dated before the start or after the end is not.
\<close>

theorem date_filter_inclusive:
  assumes "strptime start_date = Some s" and "strptime end_date = Some e"
    and "f \<in> set recent" and "form_wanted form_types (form f)"
    and "strptime (filing_date f) = Some d"
  shows "\<exists>fs. locate_filings form_types (Some start_date) (Some end_date) recent = Inr fs \<and>
           (f \<in> set fs \<longleftrightarrow> \<not> date_less d s \<and> \<not> date_less e d) \<and>
           (\<not> date_less e s \<longrightarrow> d = s \<or> d = e \<longrightarrow> f \<in> set fs) \<and>
           (date_less d s \<or> date_less e d \<longrightarrow> f \<notin> set fs)"
proof -
  have gs: "given (Some start_date)" and ge: "given (Some end_date)"
    using assms(1,2) strptime_empty by (auto simp: given_def)
  let ?fs = "raw_filings form_types True (Some s) (Some e) recent"
  have loc: "locate_filings form_types (Some start_date) (Some end_date) recent = Inr ?fs"
    using gs ge assms(1,2) by (simp add: locate_filings_def)
  have mem: "f \<in> set ?fs \<longleftrightarrow> \<not> date_less d s \<and> \<not> date_less e d"
    using assms(3,4,5) by (simp add: raw_filings_mem date_kept_def)
  show ?thesis
    using loc mem date_less_irrefl by auto
qed

text \<open>
  The theorem at the bounds 2024-01-01 and 2024-12-31, on an index with a filing on each
  bound, one on the day before the start and one on the day after the end.
\<close>

theorem date_filter_inclusive_witness:
  "\<exists>fs. locate_filings [''10-K''] (Some ''2024-01-01'') (Some ''2024-12-31'') example_recent = Inr fs \<and>
     filed_on ''2024-01-01'' \<in> set fs \<and> filed_on ''2024-12-31'' \<in> set fs \<and>
     filed_on ''2023-12-31'' \<notin> set fs \<and> filed_on ''2025-01-01'' \<notin> set fs"
proof -
  have s: "strptime ''2024-01-01'' = Some (2024, 1, 1)" by code_simp
  have e: "strptime ''2024-12-31'' = Some (2024, 12, 31)" by code_simp
  have b: "strptime ''2023-12-31'' = Some (2023, 12, 31)" by code_simp
  have a: "strptime ''2025-01-01'' = Some (2025, 1, 1)" by code_simp
  have w: "form_wanted [''10-K''] (form (filed_on d))" for d by code_simp
  have m: "filed_on d \<in> set example_recent"
    if "d \<in> {''2025-01-01'', ''2024-12-31'', ''2024-01-01'', ''2023-12-31''}" for d
    using that by (auto simp: example_recent_def)
  have fd: "filing_date (filed_on d) = d" for d by (simp add: filed_on_def)
  note th = date_filter_inclusive [OF s e m w, unfolded fd]
  from th [OF _ s] th [OF _ e] th [OF _ b] th [OF _ a]
  show ?thesis by auto
qed

section \<open>Properties of the financial extractor\<close>











text \<open>
  Claim C10 at a text in which the first membership pattern captures a number with two
  decimal points: \<^verbatim>\<open>float\<close> rejects it inside a list comprehension that no handler
  encloses, and the extractor raises instead of returning a mapping.
\<close>

theorem financial_extractor_raises:
  "findall1 re_I pattern1 malformed_example = [''1.2.3''] \<and>
   float_of_str ''1.2.3'' = Inl ValueError \<and>
   extract_financial_data malformed_example = Inl ValueError"
  by code_simp

section \<open>Properties of the margin comparator\<close>







section \<open>Properties of the guidance extractor\<close>

text \<open>
  Claim C6. On the text \<^verbatim>\<open>revenue guidance of $5.0 billion to $5.2 billion\<close> the extractor
  returns one \<^verbatim>\<open>revenue_range\<close> entry with low 5.0, high 5.2, midpoint 5.1 and a range of
  4.0 percent (the doubles nearest to these decimals), and the confidence \<^verbatim>\<open>high\<close>.
\<close>

theorem guidance_range_example:
  "extract_guidance_data guidance_example =
     Inr [(''revenue_range'',
           VList [VDict [(''low'', VFloat 5), (''high'', VFloat (fl (52 / 10))),
                         (''unit'', VStr ''billion''), (''range_pct'', VFloat 4),
                         (''midpoint'', VFloat (fl (51 / 10)))]]),
          (''confidence'', VStr ''high''), (''source'', VStr ''structured_guidance'')]"
  by code_simp

section \<open>Properties of the nominee extractor\<close>

text \<open>
  Claim C9 at the table of the source's own comment. The white space between the words of
  a name may be a line break, so the table pattern takes \<^verbatim>\<open>Board\<close>, the last word of the
  first row, as the first word of the second name; the candidate holds a stopword and is
  dropped, and \<^verbatim>\<open>Anthony Meeker\<close> is not returned.
\<close>

theorem table_row_after_capital_lost:
  "str_in ''Nominating Committee'' bbsi_example \<and> str_in ''Principal Occupation'' bbsi_example \<and>
   map group0 (finditer no_flags table_pattern bbsi_example) =
     [''Thomas J. Carley              65'', ''Board'' @ [NL] @ ''Anthony Meeker                73''] \<and>
   extract_board_nominees bbsi_example = [''Thomas J. Carley'']"
  by code_simp

section \<open>Properties of the document fetcher\<close>

lemma fetch_cache_hit:
  assumes "cache_filename \<noteq> []"
    and "read_text w (cache_dir @ cache_filename) = Some filing_text" and "filing_text \<noteq> []"
  shows "fetch_filing_and_exhibit_html e url cik accession True (Some cache_filename) w =
           ((filing_text,
             if nonempty (read_text w (cache_dir @ exhibit_name cache_filename))
             then read_text w (cache_dir @ exhibit_name cache_filename) else None), w)"
  using assms by (simp add: fetch_filing_and_exhibit_html_def nonempty_def Let_def)

text \<open>
  Claim C2. With disk caching on and a cache file name given, a filing cache file that
  yields a text that is not empty ends the call: the result is that text with the text of
  the exhibit cache file when it yields one that is not empty, and null otherwise; the
  world is the one before the call, so no request was sent and no file written; and the
  result is the same in every environment, whatever the network would have answered.
\<close>

theorem cache_hit_no_network:
  assumes "cache_filename \<noteq> []"
    and "read_text w (cache_dir @ cache_filename) = Some filing_text" and "filing_text \<noteq> []"
  shows "fetch_filing_and_exhibit_html e url cik accession True (Some cache_filename) w =
           ((filing_text,
             if nonempty (read_text w (cache_dir @ exhibit_name cache_filename))
             then read_text w (cache_dir @ exhibit_name cache_filename) else None), w) \<and>
         fetch_filing_and_exhibit_html e' url cik accession True (Some cache_filename) w =
           fetch_filing_and_exhibit_html e url cik accession True (Some cache_filename) w"
  using fetch_cache_hit [OF assms] by simp

text \<open>
  The theorem at a cache that holds a filing and its exhibit, with the network down and
  with a network that would answer.
\<close>

theorem cache_hit_no_network_witness:
  "fetch_filing_and_exhibit_html offline ''https://www.sec.gov/doc'' ''0000320193''
     ''0000320193-24-000069'' True (Some cached_name) (cached_world ''Filing text'' ''Exhibit text'') =
     ((''Filing text'', Some ''Exhibit text''), cached_world ''Filing text'' ''Exhibit text'') \<and>
   fetch_filing_and_exhibit_html online ''https://www.sec.gov/doc'' ''0000320193''
     ''0000320193-24-000069'' True (Some cached_name) (cached_world ''Filing text'' ''Exhibit text'') =
     ((''Filing text'', Some ''Exhibit text''), cached_world ''Filing text'' ''Exhibit text'') \<and>
   requests (cached_world ''Filing text'' ''Exhibit text'') = []"
proof -
  let ?w = "cached_world ''Filing text'' ''Exhibit text''"
  have n: "cached_name \<noteq> []" by code_simp
  have f: "read_text ?w (cache_dir @ cached_name) = Some ''Filing text''" by code_simp
  have x: "read_text ?w (cache_dir @ exhibit_name cached_name) = Some ''Exhibit text''" by code_simp
  have t: "''Filing text'' \<noteq> []" by simp
  have r: "requests ?w = []" by (simp add: cached_world_def)
  from cache_hit_no_network [OF n f t, of offline "''https://www.sec.gov/doc''" "''0000320193''"
      "''0000320193-24-000069''" online] x r
  show ?thesis by (simp add: nonempty_def)
qed

section \<open>Properties of the pipeline\<close>

text \<open>
  Claim C1 at a filing whose text matches no pattern: no section, no guidance, no nominee,
  and financial metrics that hold two empty blocks only. The mapping of the metrics is not
  empty for that, the filing is appended to the timeline, and the search counts it.
\<close>

theorem no_signal_filing_kept:
  "extract_all_sections quiet_text ''8-K'' = [] \<and>
   extract_financial_data quiet_text = Inr [(''arppu_data'', VDict []), (''membership_data'', VDict [])] \<and>
   extract_guidance_data quiet_text = Inr [] \<and>
   extract_board_nominees quiet_text = [] \<and>
   fst (sec_search offline quiet_sources quiet_query quiet_world) =
     Report \<lparr>r_company = Some ''Apple Inc.'', r_ticker_symbol = [], r_cik = ''0000320193'',
             r_sic = Some ''3571'', r_sic_description = Some ''Electronic Computers'',
             r_timeline = [quiet_entry], r_total_found = 1\<rparr>"
  by code_simp

end
